theory Spec2Isabelle
  imports Main "HOL-Library.Char_ord" "HOL-Library.List_Lexorder"
begin

section \<open>Python values and objects handed over by the client\<close>

text \<open>
  The tool functions of \<^verbatim>\<open>services/tools/traces.py\<close> and \<^verbatim>\<open>services/tools/datasets.py\<close>
  receive a client object, call it, and reshape what comes back into plain dictionaries.
  A dictionary is an association list in insertion order; a timestamp is kept by what the
  code observes of it: its position in time (for comparisons), the text \<^verbatim>\<open>str()\<close> gives
  and the text \<^verbatim>\<open>isoformat()\<close> gives.
\<close>

datatype datetime = DateTime (instant: int) (dt_str: string) (dt_isoformat: string)

datatype pyval =
    PNone
  | PBool bool
  | PInt int
  | PStr string
  | PList "pyval list"
  | PDict "(string \<times> pyval) list"
  | PDateTime datetime
  | PObj string string

type_synonym pydict = "(string \<times> pyval) list"

text \<open>An attribute of an object is there or not (\<^verbatim>\<open>hasattr\<close>).\<close>

datatype 'a attr = Absent | Attr 'a

text \<open>
  Exceptions (instances of \<^verbatim>\<open>Exception\<close>, which is what the tool functions catch), by
  cause. The text \<^verbatim>\<open>str(e)\<close> gives for one belongs to the interpreter
  and to the client library, so it is a parameter of the model (\<open>str_exn\<close> below).
\<close>

datatype exn =
    ClientError string
  | AttributeError string string
  | NotIterable pyval
  | NotContainer pyval
  | BadSubscript pyval
  | KeyError string
  | Unorderable

text \<open>
  A run as the client library returns it. Identifiers (UUIDs) and costs (decimals) are
  kept by their \<^verbatim>\<open>str()\<close> text, \<open>None\<close> being Python's \<^verbatim>\<open>None\<close>; an identifier
  counts as true unless it is \<^verbatim>\<open>None\<close> or its text is empty. The other attributes are
  passed through unread. \<open>r_cls\<close> is the name of the object's class.
\<close>

record run =
  r_cls :: string
  r_id :: "string option attr"
  r_name :: "pyval attr"
  r_run_type :: "pyval attr"
  r_status :: "pyval attr"
  r_start_time :: "datetime option attr"
  r_end_time :: "datetime option attr"
  r_latency :: "pyval attr"
  r_inputs :: "pyval attr"
  r_outputs :: "pyval attr"
  r_error :: "pyval attr"
  r_total_tokens :: "pyval attr"
  r_prompt_tokens :: "pyval attr"
  r_completion_tokens :: "pyval attr"
  r_total_cost :: "string option attr"
  r_prompt_cost :: "string option attr"
  r_completion_cost :: "string option attr"
  r_tags :: "pyval attr"
  r_trace_id :: "string option attr"
  r_parent_run_id :: "string option attr"
  r_feedback_stats :: "pyval attr"
  r_app_path :: "pyval attr"
  r_thread_id :: "string option attr"

text \<open>A dataset or an example: a class name and the attributes the object has.\<close>

record pyobject =
  o_cls :: string
  o_attrs :: pydict

text \<open>
  The client: what each of its methods answers to the keyword arguments it is called with,
  \<open>Inl\<close> an exception raised by the call or while its result is iterated.
\<close>

record client =
  list_runs :: "pydict \<Rightarrow> exn + run list"
  read_run :: "string \<Rightarrow> exn + run option"
  get_run_stats :: "pydict \<Rightarrow> exn + pydict"
  list_datasets :: "pydict \<Rightarrow> exn + pyobject list"
  list_examples :: "pydict \<Rightarrow> exn + pyobject list"

datatype call =
    ListRuns pydict
  | ReadRun string
  | GetRunStats pydict
  | ListDatasets pydict
  | ListExamples pydict

text \<open>
  How a tool function ends: an exception on its way to the \<^verbatim>\<open>except\<close> clause, a
  \<^verbatim>\<open>return {"error": m}\<close>, or the return of a result.
\<close>

datatype outcome = Raise exn | Fail string | Return pyval

section \<open>Python primitives\<close>

definition truthy :: "string option \<Rightarrow> bool" where
  "truthy s = (case s of None \<Rightarrow> False | Some t \<Rightarrow> t \<noteq> [])"

definition str_opt :: "string option \<Rightarrow> string" where
  "str_opt s = (case s of None \<Rightarrow> ''None'' | Some t \<Rightarrow> t)"

definition str_time :: "datetime option \<Rightarrow> string" where
  "str_time d = (case d of None \<Rightarrow> ''None'' | Some t \<Rightarrow> dt_str t)"

definition unnull :: "string option \<Rightarrow> string option" where
  "unnull s = (if s = Some ''null'' then None else s)"

fun py_split :: "char \<Rightarrow> string \<Rightarrow> string list" where
  "py_split sep [] = [[]]"
| "py_split sep (c # cs) =
     (if c = sep then [] # py_split sep cs
      else (case py_split sep cs of [] \<Rightarrow> [[c]] | p # ps \<Rightarrow> (c # p) # ps))"

definition has_key :: "string \<Rightarrow> pydict \<Rightarrow> bool" where
  "has_key k d = (k \<in> set (map fst d))"

fun dict_set :: "string \<Rightarrow> pyval \<Rightarrow> pydict \<Rightarrow> pydict" where
  "dict_set k v [] = [(k, v)]"
| "dict_set k v (p # ps) = (if fst p = k then (k, v) # ps else p # dict_set k v ps)"

definition dict_pop :: "string \<Rightarrow> pydict \<Rightarrow> pydict" where
  "dict_pop k d = filter (\<lambda>p. fst p \<noteq> k) d"

text \<open>\<^verbatim>\<open>x if s else None\<close> for a text \<open>s\<close> that may be \<^verbatim>\<open>None\<close> or empty.\<close>

definition if_truthy :: "string option \<Rightarrow> (string \<Rightarrow> pyval) \<Rightarrow> pyval" where
  "if_truthy s f = (case s of None \<Rightarrow> PNone | Some t \<Rightarrow> if t = [] then PNone else f t)"

text \<open>Reading an attribute: \<^verbatim>\<open>AttributeError\<close> when the object lacks it.\<close>

definition need :: "run \<Rightarrow> string \<Rightarrow> 'a attr \<Rightarrow> ('a \<Rightarrow> exn + 'b) \<Rightarrow> exn + 'b" where
  "need r nm a k = (case a of Absent \<Rightarrow> Inl (AttributeError (r_cls r) nm) | Attr v \<Rightarrow> k v)"

text \<open>\<^verbatim>\<open>f(x.a) if hasattr(x, "a") else d\<close>\<close>

definition probe :: "'a attr \<Rightarrow> ('a \<Rightarrow> pyval) \<Rightarrow> pyval \<Rightarrow> pyval" where
  "probe a f d = (case a of Absent \<Rightarrow> d | Attr v \<Rightarrow> f v)"

text \<open>The interpreter: the text of an exception, and the order in which a failed
  \<^verbatim>\<open>list.sort\<close> leaves the list (the language leaves it open).\<close>

record runtime =
  str_exn :: "exn \<Rightarrow> string"
  sort_residue :: "pydict list \<Rightarrow> pydict list"

definition error_payload :: "string \<Rightarrow> pyval" where
  "error_payload m = PDict [(''error'', PStr m)]"

text \<open>The \<^verbatim>\<open>except Exception as e: return {"error": f"<prefix>{str(e)}"}\<close> clause around
  a body, and the two ways the body returns.\<close>

definition finish :: "runtime \<Rightarrow> string \<Rightarrow> outcome \<Rightarrow> pyval" where
  "finish rt prefix out =
     (case out of
        Raise e \<Rightarrow> error_payload (prefix @ str_exn rt e)
      | Fail m \<Rightarrow> error_payload m
      | Return v \<Rightarrow> v)"

text \<open>A body that ends by returning the value just computed, unless computing it raised.\<close>

definition returning :: "exn + pyval \<Rightarrow> outcome" where
  "returning x = (case x of Inl e \<Rightarrow> Raise e | Inr v \<Rightarrow> Return v)"

section \<open>traces.py: fetch_trace_tool\<close>

definition trace_select :: "string list" where
  "trace_select = [''inputs'', ''outputs'', ''run_type'', ''id'', ''error'', ''total_tokens'',
     ''total_cost'', ''feedback_stats'', ''app_path'', ''thread_id'']"

definition fetch_trace_kwargs :: "string option \<Rightarrow> string option \<Rightarrow> pydict" where
  "fetch_trace_kwargs project_name trace_id =
     [(''project_name'', if_truthy project_name PStr),
      (''id'', if_truthy trace_id (\<lambda>t. PList [PStr t])),
      (''select'', PList (map PStr trace_select)),
      (''is_root'', PBool True),
      (''limit'', PInt 1)]"

definition trace_record :: "run \<Rightarrow> exn + pyval" where
  "trace_record r =
     need r ''id'' (r_id r) (\<lambda>rid.
     need r ''run_type'' (r_run_type r) (\<lambda>run_type.
     need r ''error'' (r_error r) (\<lambda>err.
     need r ''inputs'' (r_inputs r) (\<lambda>inputs.
     need r ''outputs'' (r_outputs r) (\<lambda>outputs.
     need r ''total_tokens'' (r_total_tokens r) (\<lambda>total_tokens.
     need r ''total_cost'' (r_total_cost r) (\<lambda>total_cost.
     need r ''feedback_stats'' (r_feedback_stats r) (\<lambda>feedback_stats.
     need r ''app_path'' (r_app_path r) (\<lambda>app_path.
       Inr (PDict
         [(''trace_id'', PStr (str_opt rid)),
          (''run_type'', run_type),
          (''id'', PStr (str_opt rid)),
          (''error'', err),
          (''inputs'', inputs),
          (''outputs'', outputs),
          (''total_tokens'', total_tokens),
          (''total_cost'', PStr (str_opt total_cost)),
          (''feedback_stats'', feedback_stats),
          (''app_path'', app_path),
          (''thread_id'', probe (r_thread_id r) (\<lambda>t. PStr (str_opt t)) PNone)]))))))))))"

definition fetch_trace_try :: "client \<Rightarrow> string option \<Rightarrow> string option \<Rightarrow> outcome" where
  "fetch_trace_try c project_name trace_id =
     (case list_runs c (fetch_trace_kwargs project_name trace_id) of
        Inl e \<Rightarrow> Raise e
      | Inr runs \<Rightarrow>
          (case runs of
             [] \<Rightarrow> Fail (''No runs found for project_name: '' @ str_opt project_name)
           | r # _ \<Rightarrow> returning (trace_record r)))"

definition fetch_trace_outcome ::
  "client \<Rightarrow> string option \<Rightarrow> string option \<Rightarrow> outcome \<times> call list" where
  "fetch_trace_outcome c project_name0 trace_id0 =
     (let project_name = unnull project_name0; trace_id = unnull trace_id0 in
      if \<not> truthy project_name \<and> \<not> truthy trace_id
      then (Fail ''Error: Either project_name or trace_id must be provided.'', [])
      else (fetch_trace_try c project_name trace_id,
            [ListRuns (fetch_trace_kwargs project_name trace_id)]))"

definition fetch_trace_tool ::
  "runtime \<Rightarrow> client \<Rightarrow> string option \<Rightarrow> string option \<Rightarrow> pyval \<times> call list" where
  "fetch_trace_tool rt c project_name trace_id =
     (case fetch_trace_outcome c project_name trace_id of
        (out, calls) \<Rightarrow> (finish rt ''Error fetching last trace: '' out, calls))"

section \<open>traces.py: get_project_runs_stats_tool\<close>

definition stats_kwargs :: "string option \<Rightarrow> string \<Rightarrow> string option \<Rightarrow> pydict" where
  "stats_kwargs project_name actual_project_name trace_id =
     [(''project_names'', if_truthy project_name (\<lambda>_. PList [PStr actual_project_name])),
      (''trace'', if_truthy trace_id PStr)]"

definition actual_name :: "string \<Rightarrow> string" where
  "actual_name project_name =
     (let parts = py_split CHR ''/'' project_name in
      if length parts = 2 then parts ! 1 else project_name)"

definition stats_try ::
  "client \<Rightarrow> string option \<Rightarrow> string option \<Rightarrow> outcome \<times> call list" where
  "stats_try c project_name trace_id =
     (case project_name of
        None \<Rightarrow> (Raise (AttributeError ''NoneType'' ''split''), [])
      | Some pn \<Rightarrow>
          (let actual_project_name = actual_name pn;
               kw = stats_kwargs project_name actual_project_name trace_id in
           (case get_run_stats c kw of
              Inl e \<Rightarrow> Raise e
            | Inr project_runs_stats \<Rightarrow>
                Return (PDict (dict_set ''project_name'' (PStr actual_project_name)
                                 (dict_pop ''run_facets'' project_runs_stats))),
            [GetRunStats kw])))"

definition stats_outcome ::
  "client \<Rightarrow> string option \<Rightarrow> string option \<Rightarrow> outcome \<times> call list" where
  "stats_outcome c project_name0 trace_id0 =
     (let project_name = unnull project_name0; trace_id = unnull trace_id0 in
      if \<not> truthy project_name \<and> \<not> truthy trace_id
      then (Fail ''Error: Either project_name or trace_id must be provided.'', [])
      else stats_try c project_name trace_id)"

definition get_project_runs_stats_tool ::
  "runtime \<Rightarrow> client \<Rightarrow> string option \<Rightarrow> string option \<Rightarrow> pyval \<times> call list" where
  "get_project_runs_stats_tool rt c project_name trace_id =
     (case stats_outcome c project_name trace_id of
        (out, calls) \<Rightarrow> (finish rt ''Error getting project runs stats: '' out, calls))"

section \<open>traces.py: get_thread_history_tool\<close>

fun is_prefix :: "string \<Rightarrow> string \<Rightarrow> bool" where
  "is_prefix [] s = True"
| "is_prefix (c # cs) [] = False"
| "is_prefix (c # cs) (d # ds) = (c = d \<and> is_prefix cs ds)"

fun contains :: "string \<Rightarrow> string \<Rightarrow> bool" where
  "contains [] k = (k = [])"
| "contains (c # cs) k = (is_prefix k (c # cs) \<or> contains cs k)"

text \<open>\<^verbatim>\<open>k in v\<close> for a text \<open>k\<close>: a key of a dictionary, an element of a list, a piece of
  a text; anything else is no container.\<close>

definition str_in :: "string \<Rightarrow> pyval \<Rightarrow> exn + bool" where
  "str_in k v =
     (case v of
        PDict d \<Rightarrow> Inr (has_key k d)
      | PList xs \<Rightarrow> Inr (PStr k \<in> set xs)
      | PStr s \<Rightarrow> Inr (contains s k)
      | _ \<Rightarrow> Inl (NotContainer v))"

text \<open>\<^verbatim>\<open>v[k]\<close> for a text \<open>k\<close>.\<close>

definition subscript :: "pyval \<Rightarrow> string \<Rightarrow> exn + pyval" where
  "subscript v k =
     (case v of
        PDict d \<Rightarrow> (case map_of d k of None \<Rightarrow> Inl (KeyError k) | Some x \<Rightarrow> Inr x)
      | _ \<Rightarrow> Inl (BadSubscript v))"

text \<open>The elements \<^verbatim>\<open>list.extend(v)\<close> appends.\<close>

definition iterate :: "pyval \<Rightarrow> exn + pyval list" where
  "iterate v =
     (case v of
        PList xs \<Rightarrow> Inr xs
      | PDict d \<Rightarrow> Inr (map (\<lambda>p. PStr (fst p)) d)
      | PStr s \<Rightarrow> Inr (map (\<lambda>c. PStr [c]) s)
      | _ \<Rightarrow> Inl (NotIterable v))"

definition filter_string :: "string \<Rightarrow> string" where
  "filter_string thread_id =
     ''and(in(metadata_key, ['' @ [CHR 0x22] @ ''session_id'' @ [CHR 0x22] @ '','' @
     [CHR 0x22] @ ''conversation_id'' @ [CHR 0x22] @ '','' @
     [CHR 0x22] @ ''thread_id'' @ [CHR 0x22] @ '']), eq(metadata_value, '' @
     [CHR 0x22] @ thread_id @ [CHR 0x22] @ ''))''"

definition thread_kwargs :: "string \<Rightarrow> string \<Rightarrow> pydict" where
  "thread_kwargs thread_id project_name =
     [(''project_name'', PStr project_name),
      (''filter'', PStr (filter_string thread_id)),
      (''run_type'', PStr ''llm'')]"

text \<open>The keys of \<^verbatim>\<open>sorted(runs, key=lambda run: run.start_time, reverse=True)\<close>, read
  from every run before anything is compared.\<close>

fun start_times :: "run list \<Rightarrow> exn + (datetime option \<times> run) list" where
  "start_times [] = Inr []"
| "start_times (r # rs) =
     (case r_start_time r of
        Absent \<Rightarrow> Inl (AttributeError (r_cls r) ''start_time'')
      | Attr t \<Rightarrow> (case start_times rs of Inl e \<Rightarrow> Inl e | Inr ts \<Rightarrow> Inr ((t, r) # ts)))"

definition time_key :: "datetime option \<times> run \<Rightarrow> int" where
  "time_key p = (case fst p of None \<Rightarrow> 0 | Some d \<Rightarrow> instant d)"

text \<open>
  The sort itself. A list of fewer than two runs is compared with nothing; otherwise every
  key meets another one, and \<^verbatim>\<open>None\<close> is ordered with nothing (the start times that
  are there are datetimes of one kind, ordered by their position in time). The sort is
  stable and \<^verbatim>\<open>reverse=True\<close> keeps runs of equal time in their order.
\<close>

definition sorted_latest_first :: "run list \<Rightarrow> exn + run list" where
  "sorted_latest_first runs =
     (case start_times runs of
        Inl e \<Rightarrow> Inl e
      | Inr keyed \<Rightarrow>
          if length keyed < 2 then Inr (map snd keyed)
          else if None \<in> set (map fst keyed) then Inl Unorderable
          else Inr (map snd (rev (sort_key time_key (rev keyed)))))"

definition input_messages :: "run \<Rightarrow> exn + pyval list" where
  "input_messages r =
     (case r_inputs r of
        Absent \<Rightarrow> Inr []
      | Attr inputs \<Rightarrow>
          (case str_in ''messages'' inputs of
             Inl e \<Rightarrow> Inl e
           | Inr False \<Rightarrow> Inr []
           | Inr True \<Rightarrow>
               (case subscript inputs ''messages'' of
                  Inl e \<Rightarrow> Inl e
                | Inr ms \<Rightarrow> iterate ms)))"

definition output_messages :: "run \<Rightarrow> exn + pyval list" where
  "output_messages r =
     (case r_outputs r of
        Absent \<Rightarrow> Inr []
      | Attr outputs \<Rightarrow>
          (case outputs of
             PDict d \<Rightarrow>
               (case map_of d ''choices'' of
                  Some choices \<Rightarrow>
                    (case choices of
                       PList (first # _) \<Rightarrow>
                         (case str_in ''message'' first of
                            Inl e \<Rightarrow> Inl e
                          | Inr False \<Rightarrow> Inr []
                          | Inr True \<Rightarrow>
                              (case subscript first ''message'' of
                                 Inl e \<Rightarrow> Inl e
                               | Inr m \<Rightarrow> Inr [m]))
                     | _ \<Rightarrow> Inr [])
                | None \<Rightarrow>
                    (case map_of d ''message'' of
                       Some m \<Rightarrow> Inr [m]
                     | None \<Rightarrow> Inr []))
           | _ \<Rightarrow> Inr []))"

definition latest_messages :: "string \<Rightarrow> run \<Rightarrow> outcome" where
  "latest_messages thread_id latest_run =
     (case input_messages latest_run of
        Inl e \<Rightarrow> Raise e
      | Inr ins \<Rightarrow>
          (case output_messages latest_run of
             Inl e \<Rightarrow> Raise e
           | Inr outs \<Rightarrow>
               (let messages = ins @ outs in
                if messages = []
                then Fail (''No messages found in the run for thread '' @ thread_id)
                else Return (PDict [(''result'', PList messages)]))))"

definition thread_history_try :: "client \<Rightarrow> string \<Rightarrow> string \<Rightarrow> outcome" where
  "thread_history_try c thread_id project_name =
     (case list_runs c (thread_kwargs thread_id project_name) of
        Inl e \<Rightarrow> Raise e
      | Inr runs \<Rightarrow>
          if runs = []
          then Fail (''No runs found for thread '' @ thread_id @ '' in project '' @ project_name)
          else (case sorted_latest_first runs of
                  Inl e \<Rightarrow> Raise e
                | Inr [] \<Rightarrow> Raise (BadSubscript (PList []))
                | Inr (latest_run # _) \<Rightarrow> latest_messages thread_id latest_run))"

definition get_thread_history_tool ::
  "runtime \<Rightarrow> client \<Rightarrow> string \<Rightarrow> string \<Rightarrow> pyval \<times> call list" where
  "get_thread_history_tool rt c thread_id project_name =
     (finish rt ''Error fetching thread history: '' (thread_history_try c thread_id project_name),
      [ListRuns (thread_kwargs thread_id project_name)])"

section \<open>traces.py: fetch_run_tool\<close>

definition child_select :: "string list" where
  "child_select = [''id'', ''name'', ''run_type'', ''status'', ''start_time'', ''end_time'',
     ''latency'', ''error'', ''parent_run_id'', ''inputs'', ''outputs'', ''total_tokens'',
     ''total_cost'']"

definition opt_text :: "string option \<Rightarrow> pyval" where
  "opt_text s = PStr (str_opt s)"

definition time_text :: "datetime option \<Rightarrow> pyval" where
  "time_text d = PStr (str_time d)"

text \<open>\<^verbatim>\<open>str(x.parent_run_id) if hasattr(x, "parent_run_id") and x.parent_run_id else None\<close>\<close>

definition parent_text :: "run \<Rightarrow> pyval" where
  "parent_text r =
     (case r_parent_run_id r of
        Attr (Some p) \<Rightarrow> if p = [] then PNone else PStr p
      | _ \<Rightarrow> PNone)"

definition run_info :: "run \<Rightarrow> exn + pydict" where
  "run_info r =
     need r ''id'' (r_id r) (\<lambda>rid.
     need r ''name'' (r_name r) (\<lambda>name.
     need r ''run_type'' (r_run_type r) (\<lambda>run_type.
     need r ''inputs'' (r_inputs r) (\<lambda>inputs.
     need r ''outputs'' (r_outputs r) (\<lambda>outputs.
     need r ''error'' (r_error r) (\<lambda>err.
     Inr [(''id'', PStr (str_opt rid)),
          (''name'', name),
          (''run_type'', run_type),
          (''status'', probe (r_status r) (\<lambda>v. v) PNone),
          (''start_time'', probe (r_start_time r) time_text PNone),
          (''end_time'', probe (r_end_time r) time_text PNone),
          (''latency_ms'', probe (r_latency r) (\<lambda>v. v) PNone),
          (''inputs'', inputs),
          (''outputs'', outputs),
          (''error'', err),
          (''total_tokens'', probe (r_total_tokens r) (\<lambda>v. v) PNone),
          (''prompt_tokens'', probe (r_prompt_tokens r) (\<lambda>v. v) PNone),
          (''completion_tokens'', probe (r_completion_tokens r) (\<lambda>v. v) PNone),
          (''total_cost'', probe (r_total_cost r) opt_text PNone),
          (''prompt_cost'', probe (r_prompt_cost r) opt_text PNone),
          (''completion_cost'', probe (r_completion_cost r) opt_text PNone),
          (''tags'', probe (r_tags r) (\<lambda>v. v) (PList [])),
          (''trace_id'', probe (r_trace_id r) opt_text PNone),
          (''parent_run_id'', parent_text r)]))))))"

definition children_kwargs :: "run \<Rightarrow> pydict" where
  "children_kwargs r =
     [(''trace_id'', probe (r_trace_id r) opt_text PNone),
      (''select'', PList (map PStr child_select))]"

text \<open>The condition of the comprehension:
  \<^verbatim>\<open>hasattr(c, "parent_run_id") and c.parent_run_id and str(c.parent_run_id) == run_id\<close>\<close>

definition is_child_of :: "string \<Rightarrow> run \<Rightarrow> bool" where
  "is_child_of run_id c =
     (case r_parent_run_id c of Attr (Some p) \<Rightarrow> p \<noteq> [] \<and> p = run_id | _ \<Rightarrow> False)"

definition child_dict :: "run \<Rightarrow> exn + pydict" where
  "child_dict c =
     need c ''id'' (r_id c) (\<lambda>cid.
     need c ''name'' (r_name c) (\<lambda>name.
     need c ''run_type'' (r_run_type c) (\<lambda>run_type.
     need c ''error'' (r_error c) (\<lambda>err.
     need c ''inputs'' (r_inputs c) (\<lambda>inputs.
     need c ''outputs'' (r_outputs c) (\<lambda>outputs.
       Inr [(''id'', PStr (str_opt cid)),
            (''name'', name),
            (''run_type'', run_type),
            (''status'', probe (r_status c) (\<lambda>v. v) PNone),
            (''start_time'', probe (r_start_time c) time_text PNone),
            (''end_time'', probe (r_end_time c) time_text PNone),
            (''latency_ms'', probe (r_latency c) (\<lambda>v. v) PNone),
            (''error'', err),
            (''inputs'', inputs),
            (''outputs'', outputs),
            (''total_tokens'', probe (r_total_tokens c) (\<lambda>v. v) PNone),
            (''total_cost'', probe (r_total_cost c) opt_text PNone)]))))))"

fun child_dicts :: "string \<Rightarrow> run list \<Rightarrow> exn + pydict list" where
  "child_dicts run_id [] = Inr []"
| "child_dicts run_id (c # cs) =
     (if is_child_of run_id c
      then (case child_dict c of
              Inl e \<Rightarrow> Inl e
            | Inr d \<Rightarrow> (case child_dicts run_id cs of Inl e \<Rightarrow> Inl e | Inr ds \<Rightarrow> Inr (d # ds)))
      else child_dicts run_id cs)"

text \<open>
  The key of \<^verbatim>\<open>child_runs.sort(key=lambda x: x.get("start_time", ""))\<close>: a text, or
  \<open>None\<close> for Python's \<^verbatim>\<open>None\<close> (a child dictionary holds nothing else under that key).
\<close>

definition start_key :: "pydict \<Rightarrow> string option" where
  "start_key x =
     (case map_of x ''start_time'' of
        None \<Rightarrow> Some []
      | Some (PStr s) \<Rightarrow> Some s
      | Some _ \<Rightarrow> None)"

definition start_text :: "pydict \<Rightarrow> string" where
  "start_text x = (case start_key x of None \<Rightarrow> [] | Some s \<Rightarrow> s)"

text \<open>
  \<^verbatim>\<open>list.sort\<close> on those keys: texts are ordered by their characters, \<^verbatim>\<open>None\<close> is
  ordered with nothing, so the sort raises as soon as a \<^verbatim>\<open>None\<close> key has to be compared,
  which is whenever the list has two elements or more. The result is the list after the
  call and the exception, if any.
\<close>

definition sort_by_start :: "runtime \<Rightarrow> pydict list \<Rightarrow> pydict list \<times> exn option" where
  "sort_by_start rt xs =
     (if length xs < 2 then (xs, None)
      else if None \<in> set (map start_key xs) then (sort_residue rt xs, Some Unorderable)
      else (sort_key start_text xs, None))"

text \<open>The inner \<^verbatim>\<open>try\<close>: the list \<^verbatim>\<open>child_runs\<close> holds at its end, and the exception
  caught, if any.\<close>

definition child_phase ::
  "runtime \<Rightarrow> client \<Rightarrow> run \<Rightarrow> string \<Rightarrow> pydict list \<times> exn option" where
  "child_phase rt c r run_id =
     (case list_runs c (children_kwargs r) of
        Inl e \<Rightarrow> ([], Some e)
      | Inr children \<Rightarrow>
          (case child_dicts run_id children of
             Inl e \<Rightarrow> ([], Some e)
           | Inr child_runs \<Rightarrow> sort_by_start rt child_runs))"

definition with_children :: "runtime \<Rightarrow> pydict \<Rightarrow> pydict list \<times> exn option \<Rightarrow> pydict" where
  "with_children rt info res =
     (let child_runs = fst res;
          info1 = (case snd res of
                     None \<Rightarrow> info
                   | Some e \<Rightarrow> dict_set ''child_runs_error''
                                (PStr (''Could not fetch child runs: '' @ str_exn rt e)) info);
          info2 = dict_set ''child_runs'' (PList (map PDict child_runs)) info1
      in dict_set ''child_run_count'' (PInt (int (length child_runs))) info2)"

definition fetch_run_try :: "runtime \<Rightarrow> client \<Rightarrow> string \<Rightarrow> outcome \<times> call list" where
  "fetch_run_try rt c run_id =
     (case read_run c run_id of
        Inl e \<Rightarrow> (Raise e, [ReadRun run_id])
      | Inr None \<Rightarrow> (Fail (''No run found with ID: '' @ run_id), [ReadRun run_id])
      | Inr (Some r) \<Rightarrow>
          (case run_info r of
             Inl e \<Rightarrow> (Raise e, [ReadRun run_id])
           | Inr info \<Rightarrow>
               (Return (PDict (with_children rt info (child_phase rt c r run_id))),
                [ReadRun run_id, ListRuns (children_kwargs r)])))"

definition fetch_run_outcome ::
  "runtime \<Rightarrow> client \<Rightarrow> string option \<Rightarrow> outcome \<times> call list" where
  "fetch_run_outcome rt c run_id =
     (case run_id of
        None \<Rightarrow> (Fail ''Error: run_id must be provided.'', [])
      | Some rid \<Rightarrow>
          if rid = ''null'' \<or> rid = []
          then (Fail ''Error: run_id must be provided.'', [])
          else fetch_run_try rt c rid)"

definition fetch_run_tool :: "runtime \<Rightarrow> client \<Rightarrow> string option \<Rightarrow> pyval \<times> call list" where
  "fetch_run_tool rt c run_id =
     (case fetch_run_outcome rt c run_id of
        (out, calls) \<Rightarrow> (finish rt ''Error fetching run: '' out, calls))"

section \<open>datasets.py\<close>

definition getattr_default :: "pyobject \<Rightarrow> string \<Rightarrow> pyval \<Rightarrow> pyval" where
  "getattr_default obj a d = (case map_of (o_attrs obj) a of None \<Rightarrow> d | Some v \<Rightarrow> v)"

definition type_name :: "pyval \<Rightarrow> string" where
  "type_name v =
     (case v of
        PNone \<Rightarrow> ''NoneType''
      | PBool _ \<Rightarrow> ''bool''
      | PInt _ \<Rightarrow> ''int''
      | PStr _ \<Rightarrow> ''str''
      | PList _ \<Rightarrow> ''list''
      | PDict _ \<Rightarrow> ''dict''
      | PDateTime _ \<Rightarrow> ''datetime.datetime''
      | PObj cls _ \<Rightarrow> cls)"

definition isoformat :: "pyval \<Rightarrow> exn + pyval" where
  "isoformat v =
     (case v of
        PDateTime d \<Rightarrow> Inr (PStr (dt_isoformat d))
      | _ \<Rightarrow> Inl (AttributeError (type_name v) ''isoformat''))"

text \<open>One round of the inner loop: the value stored under \<open>a\<close>.\<close>

definition format_attr :: "pyobject \<Rightarrow> string \<Rightarrow> exn + pyval" where
  "format_attr obj a =
     (let v = getattr_default obj a PNone in
      if (a = ''created_at'' \<or> a = ''modified_at'') \<and> v \<noteq> PNone then isoformat v else Inr v)"

fun format_object :: "pyobject \<Rightarrow> string list \<Rightarrow> pydict \<Rightarrow> exn + pydict" where
  "format_object obj [] d = Inr d"
| "format_object obj (a # as) d =
     (case format_attr obj a of
        Inl e \<Rightarrow> Inl e
      | Inr v \<Rightarrow> format_object obj as (dict_set a v d))"

fun format_all :: "string list \<Rightarrow> pyobject list \<Rightarrow> exn + pyval list" where
  "format_all attrs [] = Inr []"
| "format_all attrs (obj # objs) =
     (case format_object obj attrs [] of
        Inl e \<Rightarrow> Inl e
      | Inr d \<Rightarrow> (case format_all attrs objs of Inl e \<Rightarrow> Inl e | Inr ds \<Rightarrow> Inr (PDict d # ds)))"

text \<open>\<^verbatim>\<open>if v is not None: kwargs[k] = v\<close>\<close>

definition put :: "string \<Rightarrow> pyval option \<Rightarrow> pydict \<Rightarrow> pydict" where
  "put k v kwargs = (case v of None \<Rightarrow> kwargs | Some x \<Rightarrow> dict_set k x kwargs)"

definition dataset_attrs :: "string list" where
  "dataset_attrs = [''id'', ''name'', ''inputs_schema_definition'',
     ''outputs_schema_definition'', ''description'', ''data_type'', ''example_count'',
     ''session_count'', ''created_at'', ''modified_at'', ''last_session_start_time'']"

definition example_attrs :: "string list" where
  "example_attrs = [''id'', ''inputs'', ''outputs'', ''metadata'', ''created_at'',
     ''modified_at'', ''dataset_id'']"

definition datasets_kwargs ::
  "pyval option \<Rightarrow> string option \<Rightarrow> string option \<Rightarrow> string option \<Rightarrow> pyval option \<Rightarrow>
   int option \<Rightarrow> pydict" where
  "datasets_kwargs dataset_ids data_type dataset_name dataset_name_contains metadata limit =
     put ''limit'' (map_option PInt limit)
    (put ''metadata'' metadata
    (put ''dataset_name_contains'' (map_option PStr dataset_name_contains)
    (put ''dataset_name'' (map_option PStr dataset_name)
    (put ''data_type'' (map_option PStr data_type)
    (put ''dataset_ids'' dataset_ids [])))))"

definition list_datasets_try :: "client \<Rightarrow> pydict \<Rightarrow> outcome" where
  "list_datasets_try c kwargs =
     (case list_datasets c kwargs of
        Inl e \<Rightarrow> Raise e
      | Inr datasets \<Rightarrow>
          (case format_all dataset_attrs datasets of
             Inl e \<Rightarrow> Raise e
           | Inr formatted_datasets \<Rightarrow>
               Return (PDict [(''datasets'', PList formatted_datasets),
                              (''total_count'', PInt (int (length formatted_datasets)))])))"

definition list_datasets_tool ::
  "runtime \<Rightarrow> client \<Rightarrow> pyval option \<Rightarrow> string option \<Rightarrow> string option \<Rightarrow> string option \<Rightarrow>
   pyval option \<Rightarrow> int option \<Rightarrow> pyval \<times> call list" where
  "list_datasets_tool rt c dataset_ids data_type dataset_name dataset_name_contains metadata limit =
     (let kwargs = datasets_kwargs dataset_ids data_type dataset_name dataset_name_contains
                     metadata limit
      in (finish rt ''Error fetching datasets: '' (list_datasets_try c kwargs),
          [ListDatasets kwargs]))"

definition examples_kwargs ::
  "string option \<Rightarrow> string option \<Rightarrow> int option \<Rightarrow> int option \<Rightarrow> pydict" where
  "examples_kwargs dataset_id dataset_name limit offset =
     put ''offset'' (map_option PInt offset)
    (put ''limit'' (map_option PInt limit)
    (put ''dataset_name'' (map_option PStr dataset_name)
    (put ''dataset_id'' (map_option PStr dataset_id) [])))"

definition list_examples_try :: "client \<Rightarrow> pydict \<Rightarrow> outcome" where
  "list_examples_try c kwargs =
     (case list_examples c kwargs of
        Inl e \<Rightarrow> Raise e
      | Inr examples \<Rightarrow>
          (case format_all example_attrs examples of
             Inl e \<Rightarrow> Raise e
           | Inr formatted_examples \<Rightarrow>
               Return (PDict [(''examples'', PList formatted_examples),
                              (''total_count'', PInt (int (length formatted_examples)))])))"

definition list_examples_tool ::
  "runtime \<Rightarrow> client \<Rightarrow> string option \<Rightarrow> string option \<Rightarrow> int option \<Rightarrow> int option \<Rightarrow>
   pyval \<times> call list" where
  "list_examples_tool rt c dataset_id dataset_name limit offset =
     (let kwargs = examples_kwargs dataset_id dataset_name limit offset
      in (finish rt ''Error fetching examples: '' (list_examples_try c kwargs),
          [ListExamples kwargs]))"

section \<open>Reading results, and sample clients\<close>

definition is_mapping :: "pyval \<Rightarrow> bool" where
  "is_mapping v = (case v of PDict _ \<Rightarrow> True | _ \<Rightarrow> False)"

definition entries :: "pyval \<Rightarrow> pydict" where
  "entries v = (case v of PDict d \<Rightarrow> d | _ \<Rightarrow> [])"

definition has_error_key :: "pyval \<Rightarrow> bool" where
  "has_error_key v = has_key ''error'' (entries v)"

text \<open>The operation failed: the body raised, or returned an error payload.\<close>

definition failed :: "outcome \<Rightarrow> bool" where
  "failed out = (case out of Return _ \<Rightarrow> False | _ \<Rightarrow> True)"

definition missing_input :: pyval where
  "missing_input =
     PDict [(''error'', PStr ''Error: Either project_name or trace_id must be provided.'')]"

definition plain_runtime :: runtime where
  "plain_runtime =
     \<lparr>str_exn = (\<lambda>e. case e of ClientError m \<Rightarrow> m | _ \<Rightarrow> ''exception''),
      sort_residue = (\<lambda>xs. xs)\<rparr>"

definition stats_client :: client where
  "stats_client =
     \<lparr>list_runs = (\<lambda>_. Inr []),
      read_run = (\<lambda>_. Inr None),
      get_run_stats = (\<lambda>_. Inr [(''run_count'', PInt 3), (''run_facets'', PList [])]),
      list_datasets = (\<lambda>_. Inr []),
      list_examples = (\<lambda>_. Inr [])\<rparr>"

definition blank_run :: run where
  "blank_run =
     \<lparr>r_cls = ''Run'', r_id = Attr (Some ''R''), r_name = Attr (PStr ''step''),
      r_run_type = Attr (PStr ''llm''), r_status = Absent, r_start_time = Absent,
      r_end_time = Absent, r_latency = Absent, r_inputs = Attr (PDict []),
      r_outputs = Attr PNone, r_error = Attr PNone, r_total_tokens = Attr PNone,
      r_prompt_tokens = Absent, r_completion_tokens = Absent, r_total_cost = Attr None,
      r_prompt_cost = Absent, r_completion_cost = Absent, r_tags = Absent,
      r_trace_id = Attr (Some ''T''), r_parent_run_id = Attr None,
      r_feedback_stats = Attr PNone, r_app_path = Attr PNone, r_thread_id = Absent\<rparr>"

definition user_msg :: pyval where
  "user_msg = PDict [(''role'', PStr ''user''), (''content'', PStr ''hello'')]"

definition assistant_msg :: pyval where
  "assistant_msg = PDict [(''role'', PStr ''assistant''), (''content'', PStr ''hi'')]"

definition chat_run :: run where
  "chat_run = blank_run
     \<lparr>r_start_time := Attr (Some (DateTime 20 ''2024-05-02 10:00:00'' ''2024-05-02T10:00:00'')),
      r_inputs := Attr (PDict [(''messages'', PList [user_msg])]),
      r_outputs := Attr (PDict [(''choices'', PList [PDict [(''message'', assistant_msg)]])])\<rparr>"

definition older_run :: run where
  "older_run = blank_run
     \<lparr>r_start_time := Attr (Some (DateTime 10 ''2024-05-01 10:00:00'' ''2024-05-01T10:00:00'')),
      r_outputs := Attr (PDict [(''message'', PStr ''earlier'')])\<rparr>"

definition shadow_run :: run where
  "shadow_run = blank_run
     \<lparr>r_start_time := Attr (Some (DateTime 30 ''2024-05-03 10:00:00'' ''2024-05-03T10:00:00'')),
      r_outputs := Attr (PDict [(''choices'', PList []), (''message'', assistant_msg)])\<rparr>"

definition runs_client :: "run list \<Rightarrow> client" where
  "runs_client runs =
     \<lparr>list_runs = (\<lambda>_. Inr runs),
      read_run = (\<lambda>_. Inr None),
      get_run_stats = (\<lambda>_. Inr []),
      list_datasets = (\<lambda>_. Inr []),
      list_examples = (\<lambda>_. Inr [])\<rparr>"

definition dated_dataset :: pyobject where
  "dated_dataset =
     \<lparr>o_cls = ''Dataset'',
      o_attrs = [(''id'', PObj ''UUID'' ''d-1''), (''name'', PStr ''qa''),
                 (''created_at'', PDateTime (DateTime 5 ''2024-01-01 00:00:00'' ''2024-01-01T00:00:00''))]\<rparr>"

definition sample_example :: pyobject where
  "sample_example =
     \<lparr>o_cls = ''Example'',
      o_attrs = [(''id'', PObj ''UUID'' ''e-1''), (''inputs'', PDict [(''q'', PStr ''a'')]),
                 (''created_at'',
                  PDateTime (DateTime 7 ''2024-02-01 00:00:00'' ''2024-02-01T00:00:00''))]\<rparr>"

definition data_client :: client where
  "data_client =
     \<lparr>list_runs = (\<lambda>_. Inr []),
      read_run = (\<lambda>_. Inr None),
      get_run_stats = (\<lambda>_. Inr []),
      list_datasets = (\<lambda>_. Inr [dated_dataset]),
      list_examples = (\<lambda>_. Inr [sample_example, sample_example])\<rparr>"

definition early_child :: run where
  "early_child = blank_run
     \<lparr>r_id := Attr (Some ''C1''), r_name := Attr (PStr ''retrieve''),
      r_parent_run_id := Attr (Some ''R''),
      r_start_time := Attr (Some (DateTime 10 ''2024-05-01 10:00:00'' ''2024-05-01T10:00:00''))\<rparr>"

definition late_child :: run where
  "late_child = blank_run
     \<lparr>r_id := Attr (Some ''C2''), r_name := Attr (PStr ''generate''),
      r_parent_run_id := Attr (Some ''R''),
      r_start_time := Attr (Some (DateTime 20 ''2024-05-01 10:00:05'' ''2024-05-01T10:00:05''))\<rparr>"

definition other_child :: run where
  "other_child = blank_run
     \<lparr>r_id := Attr (Some ''C3''), r_name := Attr (PStr ''elsewhere''),
      r_parent_run_id := Attr (Some ''X''),
      r_start_time := Attr (Some (DateTime 5 ''2024-05-01 09:00:00'' ''2024-05-01T09:00:00''))\<rparr>"

definition untimed_child :: run where
  "untimed_child = blank_run
     \<lparr>r_id := Attr (Some ''C4''), r_name := Attr (PStr ''untimed''),
      r_parent_run_id := Attr (Some ''R'')\<rparr>"

text \<open>A client that knows the run \<open>R\<close> and answers the listing of its trace as given.\<close>

definition tree_client :: "(exn + run list) \<Rightarrow> client" where
  "tree_client listing =
     \<lparr>list_runs = (\<lambda>_. listing),
      read_run = (\<lambda>_. Inr (Some blank_run)),
      get_run_stats = (\<lambda>_. Inr []),
      list_datasets = (\<lambda>_. Inr []),
      list_examples = (\<lambda>_. Inr [])\<rparr>"

definition run_info_keys :: "string list" where
  "run_info_keys = [''id'', ''name'', ''run_type'', ''status'', ''start_time'', ''end_time'',
     ''latency_ms'', ''inputs'', ''outputs'', ''error'', ''total_tokens'', ''prompt_tokens'',
     ''completion_tokens'', ''total_cost'', ''prompt_cost'', ''completion_cost'', ''tags'',
     ''trace_id'', ''parent_run_id'']"

definition child_view :: "string \<Rightarrow> string \<Rightarrow> pyval \<Rightarrow> pydict" where
  "child_view cid name start =
     [(''id'', PStr cid), (''name'', PStr name), (''run_type'', PStr ''llm''),
      (''status'', PNone), (''start_time'', start), (''end_time'', PNone),
      (''latency_ms'', PNone), (''error'', PNone), (''inputs'', PDict []),
      (''outputs'', PNone), (''total_tokens'', PNone), (''total_cost'', PStr ''None'')]"

definition broken_client :: client where
  "broken_client =
     \<lparr>list_runs = (\<lambda>_. Inl (ClientError ''connection refused'')),
      read_run = (\<lambda>_. Inl (ClientError ''connection refused'')),
      get_run_stats = (\<lambda>_. Inl (ClientError ''connection refused'')),
      list_datasets = (\<lambda>_. Inl (ClientError ''connection refused'')),
      list_examples = (\<lambda>_. Inl (ClientError ''connection refused''))\<rparr>"

text \<open>
  What the dataset tools store for an attribute: its value, \<^verbatim>\<open>None\<close> when the object
  lacks it (\<open>field\<close>), and for the two timestamps the ISO text of a datetime (\<open>stamp\<close>).
  The two timestamps of an object can be converted when each is a datetime, \<^verbatim>\<open>None\<close> or
  missing (\<open>timestamps_ok\<close>).
\<close>

definition field :: "pyobject \<Rightarrow> string \<Rightarrow> pyval" where
  "field obj a = getattr_default obj a PNone"

definition timestamp_ok :: "pyval \<Rightarrow> bool" where
  "timestamp_ok v = (case v of PNone \<Rightarrow> True | PDateTime _ \<Rightarrow> True | _ \<Rightarrow> False)"

definition timestamps_ok :: "pyobject \<Rightarrow> bool" where
  "timestamps_ok obj =
     (timestamp_ok (field obj ''created_at'') \<and> timestamp_ok (field obj ''modified_at''))"

definition stamp :: "pyobject \<Rightarrow> string \<Rightarrow> pyval" where
  "stamp obj a =
     (case field obj a of PDateTime d \<Rightarrow> PStr (dt_isoformat d) | v \<Rightarrow> v)"

text \<open>
  A client that answers every \<^verbatim>\<open>read_run\<close> with the run given and lists no runs.
\<close>

definition lone_run_client :: "run \<Rightarrow> client" where
  "lone_run_client r =
     \<lparr>list_runs = (\<lambda>_. Inr []),
      read_run = (\<lambda>_. Inr (Some r)),
      get_run_stats = (\<lambda>_. Inr []),
      list_datasets = (\<lambda>_. Inr []),
      list_examples = (\<lambda>_. Inr [])\<rparr>"

definition erring_run :: run where
  "erring_run = blank_run \<lparr>r_error := Attr (PStr ''timeout'')\<rparr>"

section \<open>Dictionaries\<close>

lemma map_of_dict_set: "map_of (dict_set k v d) k' = (if k' = k then Some v else map_of d k')"
  by (induction d) auto

lemma has_key_dict_set: "has_key k' (dict_set k v d) \<longleftrightarrow> k' = k \<or> has_key k' d"
  by (induction d) (auto simp: has_key_def)

lemma has_key_dict_pop: "has_key k' (dict_pop k d) \<longleftrightarrow> k' \<noteq> k \<and> has_key k' d"
  by (auto simp: has_key_def dict_pop_def)

lemma has_key_map_of: "has_key k d \<longleftrightarrow> map_of d k \<noteq> None"
  by (simp add: has_key_def map_of_eq_None_iff)

lemma dict_set_fresh: "\<not> has_key k d \<Longrightarrow> dict_set k v d = d @ [(k, v)]"
  by (induction d) (auto simp: has_key_def)

section \<open>Properties\<close>

text \<open>
  C2. When both \<^verbatim>\<open>project_name\<close> and \<^verbatim>\<open>trace_id\<close> are omitted (\<^verbatim>\<open>None\<close>) or the text
  \<^verbatim>\<open>"null"\<close>, \<^verbatim>\<open>fetch_trace_tool\<close> and \<^verbatim>\<open>get_project_runs_stats_tool\<close> each return exactly
  \<^verbatim>\<open>{"error": "Error: Either project_name or trace_id must be provided."}\<close> and call no
  method of the client (the list of calls is empty).
\<close>

theorem missing_project_and_trace:
  assumes "project_name = None \<or> project_name = Some ''null''"
      and "trace_id = None \<or> trace_id = Some ''null''"
  shows "fetch_trace_tool rt c project_name trace_id = (missing_input, [])
       \<and> get_project_runs_stats_tool rt c project_name trace_id = (missing_input, [])"
  using assms
  by (auto simp: fetch_trace_tool_def fetch_trace_outcome_def get_project_runs_stats_tool_def
      stats_outcome_def unnull_def truthy_def finish_def error_payload_def missing_input_def)

theorem missing_project_and_trace_witness:
  "fetch_trace_tool plain_runtime stats_client None (Some ''null'') = (missing_input, [])
   \<and> get_project_runs_stats_tool plain_runtime stats_client None (Some ''null'')
       = (missing_input, [])"
  using missing_project_and_trace [of None "Some ''null''" plain_runtime stats_client] by simp

text \<open>
  C3. With only \<^verbatim>\<open>trace_id\<close> supplied (\<^verbatim>\<open>project_name\<close> omitted or \<^verbatim>\<open>"null"\<close>),
  \<^verbatim>\<open>get_project_runs_stats_tool\<close> splits the absent project name before it calls the
  client: whatever the client would answer, the result is the error payload built from the
  \<^verbatim>\<open>AttributeError\<close> of \<^verbatim>\<open>None.split\<close>, and the client is not called.
\<close>

theorem stats_with_trace_only:
  "get_project_runs_stats_tool rt c None (Some ''t1'') =
     (PDict [(''error'', PStr (''Error getting project runs stats: '' @
                               str_exn rt (AttributeError ''NoneType'' ''split'')))], [])
   \<and> get_project_runs_stats_tool rt c (Some ''null'') (Some ''t1'') =
     (PDict [(''error'', PStr (''Error getting project runs stats: '' @
                               str_exn rt (AttributeError ''NoneType'' ''split'')))], [])"
  by (simp add: get_project_runs_stats_tool_def stats_outcome_def unnull_def truthy_def
      stats_try_def finish_def error_payload_def)

text \<open>
  C7. Given \<^verbatim>\<open>project_name="acme/widgets"\<close> (one slash), \<^verbatim>\<open>get_project_runs_stats_tool\<close>
  uses \<^verbatim>\<open>"widgets"\<close> as the project name: it asks the client for the statistics of
  \<^verbatim>\<open>["widgets"]\<close> and, when that call succeeds, returns the statistics without
  \<^verbatim>\<open>run_facets\<close> and with \<^verbatim>\<open>"project_name": "widgets"\<close>. Given \<^verbatim>\<open>"widgets"\<close> (no slash)
  the name is used as it is.
\<close>

theorem qualified_project_name:
  assumes "get_run_stats c [(''project_names'', PList [PStr ''widgets'']),
                            (''trace'', if_truthy (unnull trace_id) PStr)] = Inr stats"
  shows "actual_name ''acme/widgets'' = ''widgets''
       \<and> actual_name ''widgets'' = ''widgets''
       \<and> get_project_runs_stats_tool rt c (Some ''acme/widgets'') trace_id =
           (PDict (dict_set ''project_name'' (PStr ''widgets'') (dict_pop ''run_facets'' stats)),
            [GetRunStats [(''project_names'', PList [PStr ''widgets'']),
                          (''trace'', if_truthy (unnull trace_id) PStr)]])
       \<and> map_of (entries (fst (get_project_runs_stats_tool rt c (Some ''acme/widgets'') trace_id)))
            ''project_name'' = Some (PStr ''widgets'')
       \<and> \<not> has_key ''run_facets''
            (entries (fst (get_project_runs_stats_tool rt c (Some ''acme/widgets'') trace_id)))"
proof -
  have a: "actual_name ''acme/widgets'' = ''widgets''" by (simp add: actual_name_def)
  have b: "actual_name ''widgets'' = ''widgets''" by (simp add: actual_name_def)
  have u: "unnull (Some ''acme/widgets'') = Some ''acme/widgets''" by (simp add: unnull_def)
  have kw: "stats_kwargs (Some ''acme/widgets'') ''widgets'' (unnull trace_id) =
      [(''project_names'', PList [PStr ''widgets'']), (''trace'', if_truthy (unnull trace_id) PStr)]"
    by (simp add: stats_kwargs_def if_truthy_def)
  have t: "get_project_runs_stats_tool rt c (Some ''acme/widgets'') trace_id =
           (PDict (dict_set ''project_name'' (PStr ''widgets'') (dict_pop ''run_facets'' stats)),
            [GetRunStats [(''project_names'', PList [PStr ''widgets'']),
                          (''trace'', if_truthy (unnull trace_id) PStr)]])"
    using assms
    by (simp add: get_project_runs_stats_tool_def stats_outcome_def stats_try_def a kw
        u truthy_def finish_def Let_def)
  show ?thesis
    unfolding t by (simp add: a b entries_def map_of_dict_set has_key_dict_set has_key_dict_pop)
qed

theorem qualified_project_name_witness:
  "actual_name ''acme/widgets'' = ''widgets''
   \<and> actual_name ''widgets'' = ''widgets''
   \<and> get_project_runs_stats_tool plain_runtime stats_client (Some ''acme/widgets'') None =
       (PDict [(''run_count'', PInt 3), (''project_name'', PStr ''widgets'')],
        [GetRunStats [(''project_names'', PList [PStr ''widgets'']), (''trace'', PNone)]])"
  using qualified_project_name [of stats_client None
      "[(''run_count'', PInt 3), (''run_facets'', PList [])]" plain_runtime]
  by (simp add: stats_client_def unnull_def if_truthy_def dict_pop_def)

lemma sorted_latest_nonempty: "sorted_latest_first runs = Inr (l # rest) \<Longrightarrow> runs \<noteq> []"
  by (auto simp: sorted_latest_first_def)

lemma start_times_keyed:
  "start_times runs = Inr keyed \<Longrightarrow>
   map snd keyed = runs \<and> (\<forall>p\<in>set keyed. r_start_time (snd p) = Attr (fst p))"
proof (induction runs arbitrary: keyed)
  case Nil
  then show ?case by simp
next
  case (Cons r rs)
  from Cons.prems obtain t ts where t: "r_start_time r = Attr t"
    and rest: "start_times rs = Inr ts" and k: "keyed = (t, r) # ts"
    by (auto split: attr.splits sum.splits)
  show ?case using Cons.IH [OF rest] t k by simp
qed

lemma sorted_last_greatest:
  "sorted (map f ys) \<Longrightarrow> y \<in> set ys \<Longrightarrow> f y \<le> f (last ys)"
proof (induction ys)
  case Nil
  then show ?case by simp
next
  case (Cons a ys)
  then show ?case by (cases ys) auto
qed

lemma latest_first_is_latest:
  assumes "sorted_latest_first runs = Inr (latest_run # rest)"
  shows "latest_run \<in> set runs"
    and "r \<in> set runs \<Longrightarrow> r_start_time r = Attr (Some t) \<Longrightarrow>
         r_start_time latest_run = Attr (Some u) \<Longrightarrow> instant t \<le> instant u"
proof -
  from assms obtain keyed where k: "start_times runs = Inr keyed"
    by (auto simp: sorted_latest_first_def split: sum.splits)
  note kd = start_times_keyed [OF k]
  let ?ys = "sort_key time_key (rev keyed)"
  have res: "latest_run # rest = (if length keyed < 2 then map snd keyed
                                  else map snd (rev ?ys))"
    using assms k by (auto simp: sorted_latest_first_def split: if_splits)
  have sets: "set (map snd (rev ?ys)) = set runs"
    using kd by (metis set_map set_rev set_sort)
  show mem: "latest_run \<in> set runs"
  proof (cases "length keyed < 2")
    case True
    then show ?thesis using res kd by (metis list.set_intros(1))
  next
    case False
    then have "latest_run # rest = map snd (rev ?ys)" using res by simp
    then show ?thesis using sets by (metis list.set_intros(1))
  qed
  assume r: "r \<in> set runs" and rt: "r_start_time r = Attr (Some t)"
    and lt: "r_start_time latest_run = Attr (Some u)"
  show "instant t \<le> instant u"
  proof (cases "length keyed < 2")
    case True
    then have "runs = [latest_run]"
      using res kd by (cases keyed; cases "tl keyed") auto
    then show ?thesis using r rt lt by simp
  next
    case False
    then have eq: "latest_run # rest = map snd (rev ?ys)" using res by simp
    then have ne: "?ys \<noteq> []" by auto
    have hd_last: "latest_run = snd (last ?ys)"
      using eq ne by (metis hd_rev list.sel(1) hd_map rev_is_Nil_conv)
    have "last ?ys \<in> set keyed" using ne by (metis last_in_set set_rev set_sort)
    then have "r_start_time latest_run = Attr (fst (last ?ys))" using kd hd_last by simp
    then have "fst (last ?ys) = Some u" using lt by simp
    then have kl: "time_key (last ?ys) = instant u" by (simp add: time_key_def)
    from r kd obtain p where p: "p \<in> set keyed" "snd p = r" by (metis (no_types) imageE set_map)
    then have "r_start_time r = Attr (fst p)" using kd by blast
    then have "fst p = Some t" using rt by simp
    then have kp: "time_key p = instant t" by (simp add: time_key_def)
    have "p \<in> set ?ys" using p by simp
    moreover have "sorted (map time_key ?ys)" by simp
    ultimately have "time_key p \<le> time_key (last ?ys)" by (rule sorted_last_greatest [rotated])
    then show ?thesis using kl kp by simp
  qed
qed

text \<open>
  C8. When the most recent matching run (the first of the runs sorted by start time,
  latest first: a listed run that no listed run started after) has the input payload \<^verbatim>\<open>{"messages": ms}\<close> and the output payload
  \<^verbatim>\<open>{"choices": [{"message": m}, ...]}\<close>, \<^verbatim>\<open>get_thread_history_tool\<close> returns
  \<^verbatim>\<open>{"result": ms + [m]}\<close>: the input messages first, then the message of the first
  choice. With \<^verbatim>\<open>ms = [{"role": "user", "content": "hello"}]\<close> and
  \<^verbatim>\<open>m = {"role": "assistant", "content": "hi"}\<close> this is the result the claim names.
\<close>

theorem thread_history_messages:
  assumes "list_runs c (thread_kwargs thread_id project_name) = Inr runs"
      and "sorted_latest_first runs = Inr (latest_run # rest)"
      and "r_inputs latest_run = Attr (PDict inputs)"
      and "map_of inputs ''messages'' = Some (PList ms)"
      and "r_outputs latest_run = Attr (PDict outputs)"
      and "map_of outputs ''choices'' = Some (PList (PDict choice # others))"
      and "map_of choice ''message'' = Some m"
  shows "get_thread_history_tool rt c thread_id project_name =
           (PDict [(''result'', PList (ms @ [m]))],
            [ListRuns (thread_kwargs thread_id project_name)])
       \<and> latest_run \<in> set runs
       \<and> (\<forall>r\<in>set runs. \<forall>t u. r_start_time r = Attr (Some t) \<longrightarrow>
              r_start_time latest_run = Attr (Some u) \<longrightarrow> instant t \<le> instant u)"
proof -
  have ne: "runs \<noteq> []" using assms(2) by (rule sorted_latest_nonempty)
  have i: "input_messages latest_run = Inr ms"
    using assms(3,4)
    by (simp add: input_messages_def str_in_def subscript_def iterate_def has_key_map_of)
  have out: "output_messages latest_run = Inr [m]"
    using assms(5,6,7)
    by (simp add: output_messages_def str_in_def subscript_def has_key_map_of)
  have "latest_messages thread_id latest_run = Return (PDict [(''result'', PList (ms @ [m]))])"
    by (simp add: latest_messages_def i out)
  then have res: "get_thread_history_tool rt c thread_id project_name =
           (PDict [(''result'', PList (ms @ [m]))],
            [ListRuns (thread_kwargs thread_id project_name)])"
    using assms(1,2) ne
    by (simp add: get_thread_history_tool_def thread_history_try_def finish_def)
  show ?thesis
    using res latest_first_is_latest [OF assms(2)] by blast
qed

text \<open>
  C10. The direct \<^verbatim>\<open>message\<close> field of the outputs is read only when the outputs have no
  \<^verbatim>\<open>choices\<close> key: if the outputs of the latest run hold a \<^verbatim>\<open>choices\<close> key that is an
  empty list, or whose first choice is a mapping without \<^verbatim>\<open>message\<close>, next to a top-level
  \<^verbatim>\<open>message\<close>, no message is taken from the outputs, and with no input messages the
  function returns the payload \<^verbatim>\<open>No messages found in the run for thread ...\<close>.
\<close>

theorem choices_shadow_message:
  assumes "list_runs c (thread_kwargs thread_id project_name) = Inr runs"
      and "sorted_latest_first runs = Inr (latest_run # rest)"
      and "r_outputs latest_run = Attr (PDict outputs)"
      and "map_of outputs ''choices'' = Some (PList [])
           \<or> (\<exists>choice others. map_of outputs ''choices'' = Some (PList (PDict choice # others))
                \<and> \<not> has_key ''message'' choice)"
      and "map_of outputs ''message'' = Some m"
      and "input_messages latest_run = Inr []"
  shows "output_messages latest_run = Inr []
       \<and> get_thread_history_tool rt c thread_id project_name =
           (PDict [(''error'', PStr (''No messages found in the run for thread '' @ thread_id))],
            [ListRuns (thread_kwargs thread_id project_name)])"
proof -
  have ne: "runs \<noteq> []" using assms(2) by (rule sorted_latest_nonempty)
  have out: "output_messages latest_run = Inr []"
    using assms(3,4)
    by (auto simp: output_messages_def str_in_def)
  have "latest_messages thread_id latest_run =
        Fail (''No messages found in the run for thread '' @ thread_id)"
    by (simp add: latest_messages_def assms(6) out)
  then show ?thesis
    using assms(1,2) ne out
    by (simp add: get_thread_history_tool_def thread_history_try_def finish_def error_payload_def)
qed


lemma latest_chat: "sorted_latest_first [older_run, chat_run] = Inr [chat_run, older_run]"
  by (simp add: sorted_latest_first_def older_run_def chat_run_def blank_run_def time_key_def)

theorem thread_history_messages_witness:
  "get_thread_history_tool plain_runtime (runs_client [older_run, chat_run]) ''t1'' ''proj'' =
     (PDict [(''result'', PList [PDict [(''role'', PStr ''user''), (''content'', PStr ''hello'')],
                                 PDict [(''role'', PStr ''assistant''), (''content'', PStr ''hi'')]])],
      [ListRuns (thread_kwargs ''t1'' ''proj'')])"
proof -
  have listing: "list_runs (runs_client [older_run, chat_run]) (thread_kwargs ''t1'' ''proj'')
                   = Inr [older_run, chat_run]"
    by (simp add: runs_client_def)
  have ins: "r_inputs chat_run = Attr (PDict [(''messages'', PList [user_msg])])"
    by (simp add: chat_run_def)
  have outs: "r_outputs chat_run =
                Attr (PDict [(''choices'', PList [PDict [(''message'', assistant_msg)]])])"
    by (simp add: chat_run_def)
  show ?thesis
    using thread_history_messages [OF listing latest_chat ins _ outs, of "[user_msg]"
        "[(''message'', assistant_msg)]" "[]" assistant_msg plain_runtime, THEN conjunct1]
    by (simp add: user_msg_def assistant_msg_def)
qed

lemma latest_shadow:
  "sorted_latest_first [older_run, shadow_run] = Inr [shadow_run, older_run]"
  by (simp add: sorted_latest_first_def older_run_def shadow_run_def blank_run_def time_key_def)

theorem choices_shadow_message_witness:
  "output_messages shadow_run = Inr []
   \<and> get_thread_history_tool plain_runtime (runs_client [older_run, shadow_run]) ''t1'' ''proj'' =
       (PDict [(''error'', PStr ''No messages found in the run for thread t1'')],
        [ListRuns (thread_kwargs ''t1'' ''proj'')])"
proof -
  have listing: "list_runs (runs_client [older_run, shadow_run]) (thread_kwargs ''t1'' ''proj'')
                   = Inr [older_run, shadow_run]"
    by (simp add: runs_client_def)
  have outs: "r_outputs shadow_run =
                Attr (PDict [(''choices'', PList []), (''message'', assistant_msg)])"
    by (simp add: shadow_run_def)
  have ins: "input_messages shadow_run = Inr []"
    by (simp add: input_messages_def shadow_run_def blank_run_def str_in_def has_key_def)
  show ?thesis
    using choices_shadow_message [OF listing latest_shadow outs _ _ ins, of assistant_msg
        plain_runtime]
    by simp
qed

lemma run_info_shape:
  assumes "run_info r = Inr info"
  shows "map fst info = run_info_keys" and "\<exists>err. r_error r = Attr err \<and> map_of info ''error'' = Some err"
  using assms
  by (auto simp: run_info_def need_def run_info_keys_def split: attr.splits)

lemma has_key_append: "has_key k (d @ e) \<longleftrightarrow> has_key k d \<or> has_key k e"
  by (auto simp: has_key_def)

lemma with_children_failed:
  assumes "map fst info = run_info_keys"
  shows "with_children rt info (cs, Some e) =
           info @ [(''child_runs_error'', PStr (''Could not fetch child runs: '' @ str_exn rt e)),
                   (''child_runs'', PList (map PDict cs)),
                   (''child_run_count'', PInt (int (length cs)))]"
proof -
  have k: "\<not> has_key ''child_runs_error'' info" "\<not> has_key ''child_runs'' info"
          "\<not> has_key ''child_run_count'' info"
    using assms by (simp_all add: has_key_def run_info_keys_def)
  show ?thesis
    using k by (simp add: with_children_def Let_def dict_set_fresh has_key_append has_key_def)
qed

lemma with_children_done:
  assumes "map fst info = run_info_keys"
  shows "with_children rt info (cs, None) =
           info @ [(''child_runs'', PList (map PDict cs)),
                   (''child_run_count'', PInt (int (length cs)))]"
proof -
  have k: "\<not> has_key ''child_runs'' info" "\<not> has_key ''child_run_count'' info"
    using assms by (simp_all add: has_key_def run_info_keys_def)
  show ?thesis
    using k by (simp add: with_children_def Let_def dict_set_fresh has_key_append has_key_def)
qed

lemma fetch_run_unfold:
  assumes "rid \<noteq> ''null''" and "rid \<noteq> []" and "read_run c rid = Inr (Some r)"
      and "run_info r = Inr info"
  shows "fetch_run_tool rt c (Some rid) =
           (PDict (with_children rt info (child_phase rt c r rid)),
            [ReadRun rid, ListRuns (children_kwargs r)])"
  using assms by (simp add: fetch_run_tool_def fetch_run_outcome_def fetch_run_try_def finish_def)

text \<open>
  C5. When the main run is fetched and its fields are read, but the listing of the runs of
  its trace raises, \<^verbatim>\<open>fetch_run_tool\<close> returns all the fields of the main run followed by
  \<^verbatim>\<open>child_runs_error\<close>, \<^verbatim>\<open>child_runs\<close> = the empty sequence and \<^verbatim>\<open>child_run_count\<close> = 0.
  Among the main run's fields is \<^verbatim>\<open>error\<close>, the run's own error attribute, so the mapping
  does have a top-level \<^verbatim>\<open>error\<close> key; the failure of the listing is not what it holds.
\<close>

theorem child_listing_failure:
  assumes "rid \<noteq> ''null''" and "rid \<noteq> []" and "read_run c rid = Inr (Some r)"
      and "run_info r = Inr info" and "list_runs c (children_kwargs r) = Inl e"
  shows "fetch_run_tool rt c (Some rid) =
           (PDict (info @
              [(''child_runs_error'', PStr (''Could not fetch child runs: '' @ str_exn rt e)),
               (''child_runs'', PList []),
               (''child_run_count'', PInt 0)]),
            [ReadRun rid, ListRuns (children_kwargs r)])
       \<and> (\<exists>err. r_error r = Attr err
              \<and> map_of (entries (fst (fetch_run_tool rt c (Some rid)))) ''error'' = Some err)"
proof -
  have ph: "child_phase rt c r rid = ([], Some e)"
    using assms(5) by (simp add: child_phase_def)
  have t: "fetch_run_tool rt c (Some rid) =
           (PDict (info @
              [(''child_runs_error'', PStr (''Could not fetch child runs: '' @ str_exn rt e)),
               (''child_runs'', PList []),
               (''child_run_count'', PInt 0)]),
            [ReadRun rid, ListRuns (children_kwargs r)])"
    using fetch_run_unfold [OF assms(1-4), of rt] run_info_shape(1) [OF assms(4)]
    by (simp add: ph with_children_failed)
  from run_info_shape(2) [OF assms(4)] obtain err where
    err: "r_error r = Attr err" "map_of info ''error'' = Some err" by blast
  show ?thesis
    using err by (auto simp: t entries_def)
qed

theorem child_listing_failure_witness:
  "fetch_run_tool plain_runtime (tree_client (Inl (ClientError ''boom''))) (Some ''R'') =
     (PDict
       [(''id'', PStr ''R''), (''name'', PStr ''step''), (''run_type'', PStr ''llm''),
        (''status'', PNone), (''start_time'', PNone), (''end_time'', PNone),
        (''latency_ms'', PNone), (''inputs'', PDict []), (''outputs'', PNone),
        (''error'', PNone), (''total_tokens'', PNone), (''prompt_tokens'', PNone),
        (''completion_tokens'', PNone), (''total_cost'', PStr ''None''),
        (''prompt_cost'', PNone), (''completion_cost'', PNone), (''tags'', PList []),
        (''trace_id'', PStr ''T''), (''parent_run_id'', PNone),
        (''child_runs_error'', PStr ''Could not fetch child runs: boom''),
        (''child_runs'', PList []), (''child_run_count'', PInt 0)],
      [ReadRun ''R'', ListRuns (children_kwargs blank_run)])"
proof -
  have i: "run_info blank_run = Inr
       [(''id'', PStr ''R''), (''name'', PStr ''step''), (''run_type'', PStr ''llm''),
        (''status'', PNone), (''start_time'', PNone), (''end_time'', PNone),
        (''latency_ms'', PNone), (''inputs'', PDict []), (''outputs'', PNone),
        (''error'', PNone), (''total_tokens'', PNone), (''prompt_tokens'', PNone),
        (''completion_tokens'', PNone), (''total_cost'', PStr ''None''),
        (''prompt_cost'', PNone), (''completion_cost'', PNone), (''tags'', PList []),
        (''trace_id'', PStr ''T''), (''parent_run_id'', PNone)]"
    by (simp add: run_info_def need_def probe_def blank_run_def str_opt_def opt_text_def
        parent_text_def)
  have rd: "read_run (tree_client (Inl (ClientError ''boom''))) ''R'' = Inr (Some blank_run)"
    by (simp add: tree_client_def)
  have ls: "list_runs (tree_client (Inl (ClientError ''boom''))) (children_kwargs blank_run)
              = Inl (ClientError ''boom'')"
    by (simp add: tree_client_def)
  show ?thesis
    using child_listing_failure [OF _ _ rd i ls, of plain_runtime]
    by (simp add: plain_runtime_def)
qed

text \<open>
  C5, as stated, fails: for the run \<open>R\<close> whose trace listing raises, the returned mapping
  has a top-level \<^verbatim>\<open>error\<close> key.
\<close>

theorem child_listing_failure_counterexample:
  "read_run (tree_client (Inl (ClientError ''boom''))) ''R'' = Inr (Some blank_run)
   \<and> list_runs (tree_client (Inl (ClientError ''boom''))) (children_kwargs blank_run)
       = Inl (ClientError ''boom'')
   \<and> has_key ''error''
       (entries (fst (fetch_run_tool plain_runtime (tree_client (Inl (ClientError ''boom'')))
                        (Some ''R''))))"
  by (simp add: tree_client_def fetch_run_tool_def fetch_run_outcome_def fetch_run_try_def
      finish_def run_info_def need_def blank_run_def child_phase_def with_children_def
      entries_def has_key_dict_set has_key_def)

lemma child_dicts_filter:
  "child_dicts rid children = Inr ds \<Longrightarrow>
   map Inr ds = map child_dict (filter (is_child_of rid) children)"
proof (induction children arbitrary: ds)
  case Nil
  then show ?case by simp
next
  case (Cons x xs)
  show ?case
  proof (cases "is_child_of rid x")
    case True
    with Cons.prems obtain d ds' where d: "child_dict x = Inr d"
      and rest: "child_dicts rid xs = Inr ds'" and ds: "ds = d # ds'"
      by (auto split: sum.splits)
    show ?thesis using Cons.IH [OF rest] True d ds by simp
  next
    case False
    with Cons.prems have "child_dicts rid xs = Inr ds" by simp
    from Cons.IH [OF this] False show ?thesis by simp
  qed
qed

lemma child_dict_start_key:
  "child_dict x = Inr d \<Longrightarrow>
   start_key d = (case r_start_time x of Absent \<Rightarrow> None | Attr t \<Rightarrow> Some (str_time t))"
  by (auto simp: child_dict_def need_def start_key_def probe_def time_text_def
      split: attr.splits)

lemma timed_children_keys:
  "child_dicts rid children = Inr ds \<Longrightarrow>
   \<forall>x\<in>set children. is_child_of rid x \<longrightarrow> r_start_time x \<noteq> Absent \<Longrightarrow>
   None \<notin> set (map start_key ds)"
proof (induction children arbitrary: ds)
  case Nil
  then show ?case by simp
next
  case (Cons x xs)
  show ?case
  proof (cases "is_child_of rid x")
    case True
    with Cons.prems(1) obtain d ds' where d: "child_dict x = Inr d"
      and rest: "child_dicts rid xs = Inr ds'" and ds: "ds = d # ds'"
      by (auto split: sum.splits)
    have "start_key d \<noteq> None"
      using child_dict_start_key [OF d] Cons.prems(2) True by (auto split: attr.splits)
    moreover have "None \<notin> set (map start_key ds')"
      using Cons.IH [OF rest] Cons.prems(2) by simp
    ultimately show ?thesis using ds by auto
  next
    case False
    with Cons.prems(1) have "child_dicts rid xs = Inr ds" by simp
    from Cons.IH [OF this] Cons.prems(2) show ?thesis by simp
  qed
qed

lemma sort_key_short: "length xs < 2 \<Longrightarrow> sort_key f xs = xs"
  by (cases xs; cases "tl xs") auto

lemma sort_by_start_done:
  "length ds < 2 \<or> None \<notin> set (map start_key ds) \<Longrightarrow>
   sort_by_start rt ds = (sort_key start_text ds, None)"
  by (auto simp: sort_by_start_def sort_key_short)

text \<open>
  C6. The children \<^verbatim>\<open>fetch_run_tool\<close> returns are the projections of exactly the listed
  runs whose parent-run identifier, as text, is the requested identifier (a run with
  another parent, no parent or no such attribute is left out), in the order of their
  start-time texts, provided the selected children carry a start time (or there is at most
  one of them). For a listing with parents \<open>[R, R, X]\<close> the two \<open>R\<close>-parented runs are
  returned, the earlier first.
\<close>

theorem direct_children_sorted:
  assumes "rid \<noteq> ''null''" and "rid \<noteq> []" and "read_run c rid = Inr (Some r)"
      and "run_info r = Inr info"
      and "list_runs c (children_kwargs r) = Inr children"
      and "child_dicts rid children = Inr ds"
      and "length ds < 2 \<or> (\<forall>x\<in>set children. is_child_of rid x \<longrightarrow> r_start_time x \<noteq> Absent)"
  shows "map Inr ds = map child_dict (filter (is_child_of rid) children)
       \<and> (\<forall>x. is_child_of rid x \<longleftrightarrow> r_parent_run_id x = Attr (Some rid))
       \<and> fetch_run_tool rt c (Some rid) =
           (PDict (info @ [(''child_runs'', PList (map PDict (sort_key start_text ds))),
                           (''child_run_count'', PInt (int (length ds)))]),
            [ReadRun rid, ListRuns (children_kwargs r)])
       \<and> sorted (map start_text (sort_key start_text ds))
       \<and> set (sort_key start_text ds) = set ds"
proof -
  have sel: "map Inr ds = map child_dict (filter (is_child_of rid) children)"
    using assms(6) by (rule child_dicts_filter)
  have par: "\<forall>x. is_child_of rid x \<longleftrightarrow> r_parent_run_id x = Attr (Some rid)"
    using assms(2) by (auto simp: is_child_of_def split: attr.splits option.splits)
  have "length ds < 2 \<or> None \<notin> set (map start_key ds)"
    using assms(7) timed_children_keys [OF assms(6)] by blast
  then have "sort_by_start rt ds = (sort_key start_text ds, None)"
    by (rule sort_by_start_done)
  then have ph: "child_phase rt c r rid = (sort_key start_text ds, None)"
    using assms(5,6) by (simp add: child_phase_def)
  have t: "fetch_run_tool rt c (Some rid) =
           (PDict (info @ [(''child_runs'', PList (map PDict (sort_key start_text ds))),
                           (''child_run_count'', PInt (int (length ds)))]),
            [ReadRun rid, ListRuns (children_kwargs r)])"
    using fetch_run_unfold [OF assms(1-4), of rt] run_info_shape(1) [OF assms(4)]
    by (simp add: ph with_children_done)
  show ?thesis
    using sel par t by simp
qed

lemma blank_info: "run_info blank_run = Inr
       [(''id'', PStr ''R''), (''name'', PStr ''step''), (''run_type'', PStr ''llm''),
        (''status'', PNone), (''start_time'', PNone), (''end_time'', PNone),
        (''latency_ms'', PNone), (''inputs'', PDict []), (''outputs'', PNone),
        (''error'', PNone), (''total_tokens'', PNone), (''prompt_tokens'', PNone),
        (''completion_tokens'', PNone), (''total_cost'', PStr ''None''),
        (''prompt_cost'', PNone), (''completion_cost'', PNone), (''tags'', PList []),
        (''trace_id'', PStr ''T''), (''parent_run_id'', PNone)]"
    by (simp add: run_info_def need_def probe_def blank_run_def str_opt_def opt_text_def
        parent_text_def)

lemma sample_child_dicts:
  "child_dict early_child = Inr (child_view ''C1'' ''retrieve'' (PStr ''2024-05-01 10:00:00''))"
  "child_dict late_child = Inr (child_view ''C2'' ''generate'' (PStr ''2024-05-01 10:00:05''))"
  "child_dict untimed_child = Inr (child_view ''C4'' ''untimed'' PNone)"
  by (simp_all add: child_dict_def need_def probe_def blank_run_def early_child_def
      late_child_def untimed_child_def child_view_def str_opt_def opt_text_def time_text_def
      str_time_def)

lemma sample_parents:
  "is_child_of ''R'' early_child" "is_child_of ''R'' late_child"
  "is_child_of ''R'' untimed_child" "\<not> is_child_of ''R'' other_child"
  by (simp_all add: is_child_of_def early_child_def late_child_def untimed_child_def
      other_child_def blank_run_def)

lemma sample_sort:
  "sort_key start_text [child_view ''C2'' ''generate'' (PStr ''2024-05-01 10:00:05''),
                        child_view ''C1'' ''retrieve'' (PStr ''2024-05-01 10:00:00'')] =
     [child_view ''C1'' ''retrieve'' (PStr ''2024-05-01 10:00:00''),
      child_view ''C2'' ''generate'' (PStr ''2024-05-01 10:00:05'')]"
  by (simp add: start_text_def start_key_def child_view_def)

theorem direct_children_sorted_witness:
  "fetch_run_tool plain_runtime (tree_client (Inr [late_child, early_child, other_child]))
     (Some ''R'') =
     (PDict
       [(''id'', PStr ''R''), (''name'', PStr ''step''), (''run_type'', PStr ''llm''),
        (''status'', PNone), (''start_time'', PNone), (''end_time'', PNone),
        (''latency_ms'', PNone), (''inputs'', PDict []), (''outputs'', PNone),
        (''error'', PNone), (''total_tokens'', PNone), (''prompt_tokens'', PNone),
        (''completion_tokens'', PNone), (''total_cost'', PStr ''None''),
        (''prompt_cost'', PNone), (''completion_cost'', PNone), (''tags'', PList []),
        (''trace_id'', PStr ''T''), (''parent_run_id'', PNone),
        (''child_runs'',
         PList [PDict (child_view ''C1'' ''retrieve'' (PStr ''2024-05-01 10:00:00'')),
                PDict (child_view ''C2'' ''generate'' (PStr ''2024-05-01 10:00:05''))]),
        (''child_run_count'', PInt 2)],
      [ReadRun ''R'', ListRuns (children_kwargs blank_run)])"
proof -
  let ?c = "tree_client (Inr [late_child, early_child, other_child])"
  have rd: "read_run ?c ''R'' = Inr (Some blank_run)"
    by (simp add: tree_client_def)
  have ls: "list_runs ?c (children_kwargs blank_run) = Inr [late_child, early_child, other_child]"
    by (simp add: tree_client_def)
  have ds: "child_dicts ''R'' [late_child, early_child, other_child] =
              Inr [child_view ''C2'' ''generate'' (PStr ''2024-05-01 10:00:05''),
                   child_view ''C1'' ''retrieve'' (PStr ''2024-05-01 10:00:00'')]"
    by (simp add: sample_child_dicts sample_parents)
  have timed: "length [child_view ''C2'' ''generate'' (PStr ''2024-05-01 10:00:05''),
                       child_view ''C1'' ''retrieve'' (PStr ''2024-05-01 10:00:00'')] < 2
      \<or> (\<forall>x\<in>set [late_child, early_child, other_child].
            is_child_of ''R'' x \<longrightarrow> r_start_time x \<noteq> Absent)"
    by (simp add: late_child_def early_child_def other_child_def)
  note shape = direct_children_sorted [OF _ _ rd blank_info ls ds timed, of plain_runtime,
      THEN conjunct2, THEN conjunct2, THEN conjunct1, unfolded sample_sort]
  show ?thesis
    using shape by simp
qed

text \<open>
  C4. A child without a \<^verbatim>\<open>start_time\<close> attribute gets \<^verbatim>\<open>None\<close> under the key
  \<^verbatim>\<open>start_time\<close>, so \<^verbatim>\<open>x.get("start_time", "")\<close> is \<^verbatim>\<open>None\<close>, not the empty text: with a
  second child in the list the sort raises, the list is left in whatever order the
  interrupted sort produced, and the result carries \<^verbatim>\<open>child_runs_error\<close>.
\<close>

theorem untimed_child_breaks_sort:
  "(case child_dict untimed_child of Inl _ \<Rightarrow> False | Inr d \<Rightarrow> start_key d = None)
   \<and> child_phase rt (tree_client (Inr [late_child, untimed_child])) blank_run ''R'' =
       (sort_residue rt [child_view ''C2'' ''generate'' (PStr ''2024-05-01 10:00:05''),
                         child_view ''C4'' ''untimed'' PNone],
        Some Unorderable)
   \<and> map_of (entries (fst (fetch_run_tool rt (tree_client (Inr [late_child, untimed_child]))
                             (Some ''R''))))
        ''child_runs_error'' = Some (PStr (''Could not fetch child runs: '' @ str_exn rt Unorderable))"
proof -
  let ?c = "tree_client (Inr [late_child, untimed_child])"
  let ?ds = "[child_view ''C2'' ''generate'' (PStr ''2024-05-01 10:00:05''),
              child_view ''C4'' ''untimed'' PNone]"
  have k: "start_key (child_view ''C4'' ''untimed'' PNone) = None"
    by (simp add: start_key_def child_view_def)
  have rd: "read_run ?c ''R'' = Inr (Some blank_run)"
    by (simp add: tree_client_def)
  have ds: "child_dicts ''R'' [late_child, untimed_child] = Inr ?ds"
    by (simp add: sample_child_dicts sample_parents)
  have srt: "sort_by_start rt ?ds = (sort_residue rt ?ds, Some Unorderable)"
    by (simp add: sort_by_start_def k)
  have ls: "list_runs ?c (children_kwargs blank_run) = Inr [late_child, untimed_child]"
    by (simp add: tree_client_def)
  have ph: "child_phase rt ?c blank_run ''R'' = (sort_residue rt ?ds, Some Unorderable)"
    by (simp only: child_phase_def ls ds srt sum.case)
  have t: "fetch_run_tool rt ?c (Some ''R'') =
             (PDict (with_children rt (projr (run_info blank_run))
                       (sort_residue rt ?ds, Some Unorderable)),
              [ReadRun ''R'', ListRuns (children_kwargs blank_run)])"
    using fetch_run_unfold [OF _ _ rd blank_info, of rt] by (simp add: ph blank_info)
  have e: "map_of (entries (fst (fetch_run_tool rt ?c (Some ''R'')))) ''child_runs_error''
             = Some (PStr (''Could not fetch child runs: '' @ str_exn rt Unorderable))"
    unfolding t
    by (simp add: entries_def with_children_def Let_def map_of_dict_set)
  show ?thesis
    using k ph e by (simp add: sample_child_dicts)
qed

lemma format_plain:
  "a \<noteq> ''created_at'' \<Longrightarrow> a \<noteq> ''modified_at'' \<Longrightarrow> format_attr obj a = Inr (field obj a)"
  by (simp add: format_attr_def field_def)

lemma format_stamp_ok:
  "a = ''created_at'' \<or> a = ''modified_at'' \<Longrightarrow> timestamp_ok (field obj a) \<Longrightarrow>
   format_attr obj a = Inr (stamp obj a)"
  by (auto simp: format_attr_def field_def stamp_def timestamp_ok_def isoformat_def Let_def
      split: pyval.splits)

lemma format_stamp_bad:
  "a = ''created_at'' \<or> a = ''modified_at'' \<Longrightarrow> \<not> timestamp_ok (field obj a) \<Longrightarrow>
   isl (format_attr obj a)"
  by (auto simp: format_attr_def field_def timestamp_ok_def isoformat_def Let_def
      split: pyval.splits)

lemma dataset_fields:
  assumes "timestamps_ok obj"
  shows "format_object obj dataset_attrs [] = Inr
     [(''id'', field obj ''id''), (''name'', field obj ''name''),
      (''inputs_schema_definition'', field obj ''inputs_schema_definition''),
      (''outputs_schema_definition'', field obj ''outputs_schema_definition''),
      (''description'', field obj ''description''), (''data_type'', field obj ''data_type''),
      (''example_count'', field obj ''example_count''),
      (''session_count'', field obj ''session_count''),
      (''created_at'', stamp obj ''created_at''), (''modified_at'', stamp obj ''modified_at''),
      (''last_session_start_time'', field obj ''last_session_start_time'')]"
  using assms
  by (simp add: dataset_attrs_def format_plain format_stamp_ok timestamps_ok_def)

lemma example_fields:
  assumes "timestamps_ok obj"
  shows "format_object obj example_attrs [] = Inr
     [(''id'', field obj ''id''), (''inputs'', field obj ''inputs''),
      (''outputs'', field obj ''outputs''), (''metadata'', field obj ''metadata''),
      (''created_at'', stamp obj ''created_at''), (''modified_at'', stamp obj ''modified_at''),
      (''dataset_id'', field obj ''dataset_id'')]"
  using assms
  by (simp add: example_attrs_def format_plain format_stamp_ok timestamps_ok_def)

lemma format_object_raises:
  "isl (format_attr obj a) \<Longrightarrow> a \<in> set as \<Longrightarrow> isl (format_object obj as d)"
  by (induction as arbitrary: d) (auto split: sum.splits)

lemma dataset_fields_bad: "\<not> timestamps_ok obj \<Longrightarrow> isl (format_object obj dataset_attrs [])"
proof -
  assume "\<not> timestamps_ok obj"
  then consider "\<not> timestamp_ok (field obj ''created_at'')"
    | "\<not> timestamp_ok (field obj ''modified_at'')"
    by (auto simp: timestamps_ok_def)
  then show ?thesis
  proof cases
    case 1
    then have "isl (format_attr obj ''created_at'')" by (simp add: format_stamp_bad)
    then show ?thesis by (rule format_object_raises) (simp add: dataset_attrs_def)
  next
    case 2
    then have "isl (format_attr obj ''modified_at'')" by (simp add: format_stamp_bad)
    then show ?thesis by (rule format_object_raises) (simp add: dataset_attrs_def)
  qed
qed

lemma example_fields_bad: "\<not> timestamps_ok obj \<Longrightarrow> isl (format_object obj example_attrs [])"
proof -
  assume "\<not> timestamps_ok obj"
  then consider "\<not> timestamp_ok (field obj ''created_at'')"
    | "\<not> timestamp_ok (field obj ''modified_at'')"
    by (auto simp: timestamps_ok_def)
  then show ?thesis
  proof cases
    case 1
    then have "isl (format_attr obj ''created_at'')" by (simp add: format_stamp_bad)
    then show ?thesis by (rule format_object_raises) (simp add: example_attrs_def)
  next
    case 2
    then have "isl (format_attr obj ''modified_at'')" by (simp add: format_stamp_bad)
    then show ?thesis by (rule format_object_raises) (simp add: example_attrs_def)
  qed
qed

lemma format_all_fields:
  assumes "\<forall>obj. timestamps_ok obj \<longrightarrow> format_object obj attrs [] = Inr (view obj)"
      and "\<forall>obj. \<not> timestamps_ok obj \<longrightarrow> isl (format_object obj attrs [])"
  shows "(list_all timestamps_ok objs \<longrightarrow>
            format_all attrs objs = Inr (map (\<lambda>obj. PDict (view obj)) objs))
       \<and> (\<not> list_all timestamps_ok objs \<longrightarrow> isl (format_all attrs objs))"
proof (induction objs)
  case Nil
  then show ?case by simp
next
  case (Cons obj objs)
  show ?case
  proof (cases "timestamps_ok obj")
    case True
    then have "format_object obj attrs [] = Inr (view obj)" using assms(1) by blast
    then show ?thesis using Cons.IH True by (auto split: sum.splits)
  next
    case False
    then have "isl (format_object obj attrs [])" using assms(2) by blast
    then show ?thesis using False by (auto split: sum.splits)
  qed
qed

lemma format_all_datasets:
  "(list_all timestamps_ok objs \<longrightarrow>
      format_all dataset_attrs objs = Inr (map (\<lambda>obj. PDict
         [(''id'', field obj ''id''), (''name'', field obj ''name''),
          (''inputs_schema_definition'', field obj ''inputs_schema_definition''),
          (''outputs_schema_definition'', field obj ''outputs_schema_definition''),
          (''description'', field obj ''description''), (''data_type'', field obj ''data_type''),
          (''example_count'', field obj ''example_count''),
          (''session_count'', field obj ''session_count''),
          (''created_at'', stamp obj ''created_at''), (''modified_at'', stamp obj ''modified_at''),
          (''last_session_start_time'', field obj ''last_session_start_time'')]) objs))
   \<and> (\<not> list_all timestamps_ok objs \<longrightarrow> isl (format_all dataset_attrs objs))"
  by (rule format_all_fields) (simp_all add: dataset_fields dataset_fields_bad)

lemma format_all_examples:
  "(list_all timestamps_ok objs \<longrightarrow>
      format_all example_attrs objs = Inr (map (\<lambda>obj. PDict
         [(''id'', field obj ''id''), (''inputs'', field obj ''inputs''),
          (''outputs'', field obj ''outputs''), (''metadata'', field obj ''metadata''),
          (''created_at'', stamp obj ''created_at''), (''modified_at'', stamp obj ''modified_at''),
          (''dataset_id'', field obj ''dataset_id'')]) objs))
   \<and> (\<not> list_all timestamps_ok objs \<longrightarrow> isl (format_all example_attrs objs))"
  by (rule format_all_fields) (simp_all add: example_fields example_fields_bad)

text \<open>
  C9. When the client lists datasets (or examples), \<^verbatim>\<open>list_datasets_tool\<close>
  (\<^verbatim>\<open>list_examples_tool\<close>) fails exactly when some listed object has a
  \<^verbatim>\<open>created_at\<close> or \<^verbatim>\<open>modified_at\<close> that is neither a datetime nor \<^verbatim>\<open>None\<close>; an attribute
  the object lacks never makes it fail. Otherwise the result holds, for every listed object
  and in the order listed, one dictionary with exactly the projected keys (eleven for a
  dataset, seven for an example), each holding the attribute's value, the ISO text for the
  two timestamps, and \<^verbatim>\<open>None\<close> for an attribute the object lacks; \<^verbatim>\<open>total_count\<close> is the
  length of that sequence.
\<close>

theorem missing_attributes_and_total_count:
  "(list_datasets c (datasets_kwargs dataset_ids data_type dataset_name dataset_name_contains
                       metadata limit) = Inr objs \<longrightarrow>
      (failed (list_datasets_try c (datasets_kwargs dataset_ids data_type dataset_name
                                      dataset_name_contains metadata limit))
         \<longleftrightarrow> \<not> list_all timestamps_ok objs)
    \<and> (list_all timestamps_ok objs \<longrightarrow>
         fst (list_datasets_tool rt c dataset_ids data_type dataset_name dataset_name_contains
                metadata limit) =
         PDict [(''datasets'',
                 PList (map (\<lambda>obj. PDict
                   [(''id'', field obj ''id''), (''name'', field obj ''name''),
                    (''inputs_schema_definition'', field obj ''inputs_schema_definition''),
                    (''outputs_schema_definition'', field obj ''outputs_schema_definition''),
                    (''description'', field obj ''description''),
                    (''data_type'', field obj ''data_type''),
                    (''example_count'', field obj ''example_count''),
                    (''session_count'', field obj ''session_count''),
                    (''created_at'', stamp obj ''created_at''),
                    (''modified_at'', stamp obj ''modified_at''),
                    (''last_session_start_time'', field obj ''last_session_start_time'')])
                   objs)),
                (''total_count'', PInt (int (length objs)))]))
   \<and> (list_examples c (examples_kwargs dataset_id examples_name examples_limit offset)
         = Inr exs \<longrightarrow>
      (failed (list_examples_try c (examples_kwargs dataset_id examples_name examples_limit
                                      offset))
         \<longleftrightarrow> \<not> list_all timestamps_ok exs)
    \<and> (list_all timestamps_ok exs \<longrightarrow>
         fst (list_examples_tool rt c dataset_id examples_name examples_limit offset) =
         PDict [(''examples'',
                 PList (map (\<lambda>obj. PDict
                   [(''id'', field obj ''id''), (''inputs'', field obj ''inputs''),
                    (''outputs'', field obj ''outputs''), (''metadata'', field obj ''metadata''),
                    (''created_at'', stamp obj ''created_at''),
                    (''modified_at'', stamp obj ''modified_at''),
                    (''dataset_id'', field obj ''dataset_id'')])
                   exs)),
                (''total_count'', PInt (int (length exs)))]))
   \<and> (map_of (o_attrs obj) a = None \<longrightarrow>
        field obj a = PNone \<and> stamp obj a = PNone \<and> timestamp_ok (field obj a))"
proof -
  let ?dk = "datasets_kwargs dataset_ids data_type dataset_name dataset_name_contains
               metadata limit"
  let ?ek = "examples_kwargs dataset_id examples_name examples_limit offset"
  note ds = format_all_datasets [of objs, THEN conjunct1, rule_format]
    format_all_datasets [of objs, THEN conjunct2, rule_format]
  note es = format_all_examples [of exs, THEN conjunct1, rule_format]
    format_all_examples [of exs, THEN conjunct2, rule_format]
  have d: "list_datasets c ?dk = Inr objs \<longrightarrow>
      (failed (list_datasets_try c ?dk) \<longleftrightarrow> \<not> list_all timestamps_ok objs)
    \<and> (list_all timestamps_ok objs \<longrightarrow>
         fst (list_datasets_tool rt c dataset_ids data_type dataset_name dataset_name_contains
                metadata limit) =
         PDict [(''datasets'',
                 PList (map (\<lambda>obj. PDict
                   [(''id'', field obj ''id''), (''name'', field obj ''name''),
                    (''inputs_schema_definition'', field obj ''inputs_schema_definition''),
                    (''outputs_schema_definition'', field obj ''outputs_schema_definition''),
                    (''description'', field obj ''description''),
                    (''data_type'', field obj ''data_type''),
                    (''example_count'', field obj ''example_count''),
                    (''session_count'', field obj ''session_count''),
                    (''created_at'', stamp obj ''created_at''),
                    (''modified_at'', stamp obj ''modified_at''),
                    (''last_session_start_time'', field obj ''last_session_start_time'')])
                   objs)),
                (''total_count'', PInt (int (length objs)))])"
  proof (intro impI conjI)
    assume l: "list_datasets c ?dk = Inr objs"
    show "failed (list_datasets_try c ?dk) \<longleftrightarrow> \<not> list_all timestamps_ok objs"
    proof (cases "list_all timestamps_ok objs")
      case True
      then show ?thesis using ds(1) [OF True] l by (simp add: list_datasets_try_def failed_def)
    next
      case False
      then show ?thesis using ds(2) [OF False] l
        by (auto simp: list_datasets_try_def failed_def split: sum.splits)
    qed
  next
    assume l: "list_datasets c ?dk = Inr objs" and ok: "list_all timestamps_ok objs"
    show "fst (list_datasets_tool rt c dataset_ids data_type dataset_name dataset_name_contains
                metadata limit) =
         PDict [(''datasets'',
                 PList (map (\<lambda>obj. PDict
                   [(''id'', field obj ''id''), (''name'', field obj ''name''),
                    (''inputs_schema_definition'', field obj ''inputs_schema_definition''),
                    (''outputs_schema_definition'', field obj ''outputs_schema_definition''),
                    (''description'', field obj ''description''),
                    (''data_type'', field obj ''data_type''),
                    (''example_count'', field obj ''example_count''),
                    (''session_count'', field obj ''session_count''),
                    (''created_at'', stamp obj ''created_at''),
                    (''modified_at'', stamp obj ''modified_at''),
                    (''last_session_start_time'', field obj ''last_session_start_time'')])
                   objs)),
                (''total_count'', PInt (int (length objs)))]"
      using ds(1) [OF ok] l
      by (simp add: list_datasets_tool_def Let_def list_datasets_try_def finish_def)
  qed
  have e: "list_examples c ?ek = Inr exs \<longrightarrow>
      (failed (list_examples_try c ?ek) \<longleftrightarrow> \<not> list_all timestamps_ok exs)
    \<and> (list_all timestamps_ok exs \<longrightarrow>
         fst (list_examples_tool rt c dataset_id examples_name examples_limit offset) =
         PDict [(''examples'',
                 PList (map (\<lambda>obj. PDict
                   [(''id'', field obj ''id''), (''inputs'', field obj ''inputs''),
                    (''outputs'', field obj ''outputs''), (''metadata'', field obj ''metadata''),
                    (''created_at'', stamp obj ''created_at''),
                    (''modified_at'', stamp obj ''modified_at''),
                    (''dataset_id'', field obj ''dataset_id'')])
                   exs)),
                (''total_count'', PInt (int (length exs)))])"
  proof (intro impI conjI)
    assume l: "list_examples c ?ek = Inr exs"
    show "failed (list_examples_try c ?ek) \<longleftrightarrow> \<not> list_all timestamps_ok exs"
    proof (cases "list_all timestamps_ok exs")
      case True
      then show ?thesis using es(1) [OF True] l by (simp add: list_examples_try_def failed_def)
    next
      case False
      then show ?thesis using es(2) [OF False] l
        by (auto simp: list_examples_try_def failed_def split: sum.splits)
    qed
  next
    assume l: "list_examples c ?ek = Inr exs" and ok: "list_all timestamps_ok exs"
    show "fst (list_examples_tool rt c dataset_id examples_name examples_limit offset) =
         PDict [(''examples'',
                 PList (map (\<lambda>obj. PDict
                   [(''id'', field obj ''id''), (''inputs'', field obj ''inputs''),
                    (''outputs'', field obj ''outputs''), (''metadata'', field obj ''metadata''),
                    (''created_at'', stamp obj ''created_at''),
                    (''modified_at'', stamp obj ''modified_at''),
                    (''dataset_id'', field obj ''dataset_id'')])
                   exs)),
                (''total_count'', PInt (int (length exs)))]"
      using es(1) [OF ok] l
      by (simp add: list_examples_tool_def Let_def list_examples_try_def finish_def)
  qed
  have m: "map_of (o_attrs obj) a = None \<longrightarrow>
        field obj a = PNone \<and> stamp obj a = PNone \<and> timestamp_ok (field obj a)"
    by (simp add: field_def stamp_def getattr_default_def timestamp_ok_def)
  show ?thesis
    using d e m by blast
qed

theorem missing_attributes_and_total_count_witness:
  "fst (list_datasets_tool plain_runtime data_client None None None None None (Some 20)) =
     PDict [(''datasets'',
             PList [PDict [(''id'', PObj ''UUID'' ''d-1''), (''name'', PStr ''qa''),
                           (''inputs_schema_definition'', PNone),
                           (''outputs_schema_definition'', PNone), (''description'', PNone),
                           (''data_type'', PNone), (''example_count'', PNone),
                           (''session_count'', PNone),
                           (''created_at'', PStr ''2024-01-01T00:00:00''),
                           (''modified_at'', PNone), (''last_session_start_time'', PNone)]]),
            (''total_count'', PInt 1)]
   \<and> fst (list_examples_tool plain_runtime data_client None (Some ''qa'') None None) =
     PDict [(''examples'',
             PList [PDict [(''id'', PObj ''UUID'' ''e-1''), (''inputs'', PDict [(''q'', PStr ''a'')]),
                           (''outputs'', PNone), (''metadata'', PNone),
                           (''created_at'', PStr ''2024-02-01T00:00:00''),
                           (''modified_at'', PNone), (''dataset_id'', PNone)],
                    PDict [(''id'', PObj ''UUID'' ''e-1''), (''inputs'', PDict [(''q'', PStr ''a'')]),
                           (''outputs'', PNone), (''metadata'', PNone),
                           (''created_at'', PStr ''2024-02-01T00:00:00''),
                           (''modified_at'', PNone), (''dataset_id'', PNone)]]),
            (''total_count'', PInt 2)]
   \<and> \<not> failed (list_datasets_try data_client
                   (datasets_kwargs None None None None None (Some 20)))
   \<and> \<not> failed (list_examples_try data_client (examples_kwargs None (Some ''qa'') None None))
   \<and> field dated_dataset ''modified_at'' = PNone"
proof -
  have okd: "list_all timestamps_ok [dated_dataset]"
    by (simp add: timestamps_ok_def timestamp_ok_def field_def getattr_default_def
        dated_dataset_def)
  have oke: "list_all timestamps_ok [sample_example, sample_example]"
    by (simp add: timestamps_ok_def timestamp_ok_def field_def getattr_default_def
        sample_example_def)
  have ld: "list_datasets data_client (datasets_kwargs None None None None None (Some 20))
              = Inr [dated_dataset]"
    by (simp add: data_client_def)
  have le: "list_examples data_client (examples_kwargs None (Some ''qa'') None None)
              = Inr [sample_example, sample_example]"
    by (simp add: data_client_def)
  have md: "map_of (o_attrs dated_dataset) ''modified_at'' = None"
    by (simp add: dated_dataset_def)
  note inst = missing_attributes_and_total_count [where c = data_client
      and rt = plain_runtime and dataset_ids = None and data_type = None
      and dataset_name = None and dataset_name_contains = None and metadata = None
      and limit = "Some 20" and objs = "[dated_dataset]" and dataset_id = None
      and examples_name = "Some ''qa''" and examples_limit = None and offset = None
      and exs = "[sample_example, sample_example]" and obj = dated_dataset
      and a = "''modified_at''"]
  show ?thesis
    using inst okd oke ld le md
    by (simp add: field_def stamp_def getattr_default_def dated_dataset_def sample_example_def)
qed

lemma finish_mapping:
  "is_mapping (finish rt p out) \<longleftrightarrow> (case out of Return v \<Rightarrow> is_mapping v | _ \<Rightarrow> True)"
  by (simp add: finish_def error_payload_def is_mapping_def split: outcome.splits)

lemma finish_error_key:
  "has_error_key (finish rt p out) \<longleftrightarrow> (case out of Return v \<Rightarrow> has_error_key v | _ \<Rightarrow> True)"
  by (simp add: finish_def error_payload_def has_error_key_def entries_def has_key_def
      split: outcome.splits)

lemma datasets_return:
  "list_datasets_try c kw = Return v \<Longrightarrow> is_mapping v \<and> \<not> has_error_key v"
  by (auto simp: list_datasets_try_def is_mapping_def has_error_key_def entries_def has_key_def
      split: sum.splits)

lemma examples_return:
  "list_examples_try c kw = Return v \<Longrightarrow> is_mapping v \<and> \<not> has_error_key v"
  by (auto simp: list_examples_try_def is_mapping_def has_error_key_def entries_def has_key_def
      split: sum.splits)

lemma latest_messages_return:
  "latest_messages t r = Return v \<Longrightarrow> is_mapping v \<and> \<not> has_error_key v"
  by (auto simp: latest_messages_def Let_def is_mapping_def has_error_key_def entries_def
      has_key_def split: sum.splits if_splits)

lemma thread_return:
  "thread_history_try c t p = Return v \<Longrightarrow> is_mapping v \<and> \<not> has_error_key v"
  by (auto simp: thread_history_try_def dest: latest_messages_return
      split: sum.splits if_splits list.splits)

lemma trace_record_shape:
  "trace_record r = Inr v \<Longrightarrow>
   is_mapping v \<and> (\<exists>err. r_error r = Attr err \<and> map_of (entries v) ''error'' = Some err)"
  by (auto simp: trace_record_def need_def is_mapping_def entries_def split: attr.splits)

lemma trace_return:
  "fst (fetch_trace_outcome c pn tid) = Return v \<Longrightarrow>
   is_mapping v \<and>
   (\<exists>r others err. list_runs c (fetch_trace_kwargs (unnull pn) (unnull tid)) = Inr (r # others)
      \<and> r_error r = Attr err \<and> map_of (entries v) ''error'' = Some err)"
  by (auto simp: fetch_trace_outcome_def fetch_trace_try_def returning_def Let_def
      dest!: trace_record_shape split: if_splits sum.splits list.splits)

lemma with_children_error:
  "map_of (with_children rt info res) ''error'' = map_of info ''error''"
  by (simp add: with_children_def Let_def map_of_dict_set split: option.splits)

lemma run_return:
  "fst (fetch_run_outcome rt c run_id) = Return v \<Longrightarrow>
   is_mapping v \<and>
   (\<exists>rid r err. run_id = Some rid \<and> read_run c rid = Inr (Some r) \<and> r_error r = Attr err
      \<and> map_of (entries v) ''error'' = Some err)"
  by (auto simp: fetch_run_outcome_def fetch_run_try_def is_mapping_def entries_def
      with_children_error dest!: run_info_shape(2)
      split: option.splits if_splits sum.splits)

lemma stats_return:
  "fst (stats_outcome c pn tid) = Return v \<Longrightarrow>
   is_mapping v \<and>
   (\<exists>p stats. unnull pn = Some p
      \<and> get_run_stats c (stats_kwargs (Some p) (actual_name p) (unnull tid)) = Inr stats
      \<and> (has_error_key v \<longleftrightarrow> has_key ''error'' stats))"
  by (auto simp: stats_outcome_def stats_try_def Let_def is_mapping_def has_error_key_def
      entries_def has_key_dict_set has_key_dict_pop
      split: if_splits option.splits sum.splits)

lemma error_key_value: "map_of (entries v) ''error'' = Some err \<Longrightarrow> has_error_key v"
  by (simp add: has_error_key_def has_key_map_of)

text \<open>
  C1. Every tool function returns a mapping, whatever its arguments and whatever the
  client does (no exception of class \<^verbatim>\<open>Exception\<close> leaves the call). The mapping of
  \<^verbatim>\<open>list_datasets_tool\<close>, \<^verbatim>\<open>list_examples_tool\<close> and \<^verbatim>\<open>get_thread_history_tool\<close> has an
  \<^verbatim>\<open>error\<close> key exactly when the operation failed. The mapping of \<^verbatim>\<open>fetch_trace_tool\<close>
  and \<^verbatim>\<open>fetch_run_tool\<close> always has one: on success it holds the error attribute of the
  run the client returned (the first run listed, the run read). The mapping of
  \<^verbatim>\<open>get_project_runs_stats_tool\<close> has one exactly when the operation failed or the
  statistics the client returned to this call have one.
\<close>

theorem tools_return_mappings:
  "is_mapping (fst (list_datasets_tool rt c dataset_ids data_type dataset_name
                      dataset_name_contains metadata limit))
   \<and> is_mapping (fst (list_examples_tool rt c dataset_id examples_name examples_limit offset))
   \<and> is_mapping (fst (fetch_trace_tool rt c project_name trace_id))
   \<and> is_mapping (fst (get_thread_history_tool rt c thread_id thread_project))
   \<and> is_mapping (fst (fetch_run_tool rt c run_id))
   \<and> is_mapping (fst (get_project_runs_stats_tool rt c project_name trace_id))
   \<and> (has_error_key (fst (list_datasets_tool rt c dataset_ids data_type dataset_name
                             dataset_name_contains metadata limit))
        \<longleftrightarrow> failed (list_datasets_try c (datasets_kwargs dataset_ids data_type dataset_name
                                             dataset_name_contains metadata limit)))
   \<and> (has_error_key (fst (list_examples_tool rt c dataset_id examples_name examples_limit offset))
        \<longleftrightarrow> failed (list_examples_try c (examples_kwargs dataset_id examples_name
                                             examples_limit offset)))
   \<and> (has_error_key (fst (get_thread_history_tool rt c thread_id thread_project))
        \<longleftrightarrow> failed (thread_history_try c thread_id thread_project))
   \<and> has_error_key (fst (fetch_trace_tool rt c project_name trace_id))
   \<and> (\<not> failed (fst (fetch_trace_outcome c project_name trace_id)) \<longrightarrow>
        (\<exists>r others err.
            list_runs c (fetch_trace_kwargs (unnull project_name) (unnull trace_id))
              = Inr (r # others)
          \<and> r_error r = Attr err
          \<and> map_of (entries (fst (fetch_trace_tool rt c project_name trace_id))) ''error''
              = Some err))
   \<and> has_error_key (fst (fetch_run_tool rt c run_id))
   \<and> (\<not> failed (fst (fetch_run_outcome rt c run_id)) \<longrightarrow>
        (\<exists>rid r err. run_id = Some rid \<and> read_run c rid = Inr (Some r) \<and> r_error r = Attr err
          \<and> map_of (entries (fst (fetch_run_tool rt c run_id))) ''error'' = Some err))
   \<and> (has_error_key (fst (get_project_runs_stats_tool rt c project_name trace_id))
        \<longleftrightarrow> failed (fst (stats_outcome c project_name trace_id))
            \<or> (\<exists>p stats. unnull project_name = Some p
                  \<and> get_run_stats c (stats_kwargs (Some p) (actual_name p) (unnull trace_id))
                      = Inr stats
                  \<and> has_key ''error'' stats))"
proof -
  have d: "is_mapping (fst (list_datasets_tool rt c dataset_ids data_type dataset_name
                      dataset_name_contains metadata limit))"
    "has_error_key (fst (list_datasets_tool rt c dataset_ids data_type dataset_name
                             dataset_name_contains metadata limit))
        \<longleftrightarrow> failed (list_datasets_try c (datasets_kwargs dataset_ids data_type dataset_name
                                             dataset_name_contains metadata limit))"
    using datasets_return [of c "datasets_kwargs dataset_ids data_type dataset_name
                                   dataset_name_contains metadata limit"]
    by (auto simp: list_datasets_tool_def Let_def finish_mapping finish_error_key failed_def
        split: outcome.splits)
  have e: "is_mapping (fst (list_examples_tool rt c dataset_id examples_name examples_limit offset))"
    "has_error_key (fst (list_examples_tool rt c dataset_id examples_name examples_limit offset))
        \<longleftrightarrow> failed (list_examples_try c (examples_kwargs dataset_id examples_name
                                             examples_limit offset))"
    using examples_return [of c "examples_kwargs dataset_id examples_name examples_limit offset"]
    by (auto simp: list_examples_tool_def Let_def finish_mapping finish_error_key failed_def
        split: outcome.splits)
  have h: "is_mapping (fst (get_thread_history_tool rt c thread_id thread_project))"
    "has_error_key (fst (get_thread_history_tool rt c thread_id thread_project))
        \<longleftrightarrow> failed (thread_history_try c thread_id thread_project)"
    using thread_return [of c thread_id thread_project]
    by (auto simp: get_thread_history_tool_def finish_mapping finish_error_key failed_def
        split: outcome.splits)
  have tool_t: "fst (fetch_trace_tool rt c project_name trace_id) =
                  finish rt ''Error fetching last trace: ''
                    (fst (fetch_trace_outcome c project_name trace_id))"
    by (simp add: fetch_trace_tool_def split: prod.splits)
  have t: "is_mapping (fst (fetch_trace_tool rt c project_name trace_id))"
    "has_error_key (fst (fetch_trace_tool rt c project_name trace_id))"
    "\<not> failed (fst (fetch_trace_outcome c project_name trace_id)) \<longrightarrow>
        (\<exists>r others err.
            list_runs c (fetch_trace_kwargs (unnull project_name) (unnull trace_id))
              = Inr (r # others)
          \<and> r_error r = Attr err
          \<and> map_of (entries (fst (fetch_trace_tool rt c project_name trace_id))) ''error''
              = Some err)"
    using trace_return [of c project_name trace_id]
    by (auto simp: tool_t finish_mapping finish_error_key failed_def is_mapping_def
          error_payload_def has_error_key_def entries_def has_key_map_of finish_def
        split: outcome.splits)
  have tool_r: "fst (fetch_run_tool rt c run_id) =
                  finish rt ''Error fetching run: '' (fst (fetch_run_outcome rt c run_id))"
    by (simp add: fetch_run_tool_def split: prod.splits)
  have r: "is_mapping (fst (fetch_run_tool rt c run_id))"
    "has_error_key (fst (fetch_run_tool rt c run_id))"
    "\<not> failed (fst (fetch_run_outcome rt c run_id)) \<longrightarrow>
        (\<exists>rid r err. run_id = Some rid \<and> read_run c rid = Inr (Some r) \<and> r_error r = Attr err
          \<and> map_of (entries (fst (fetch_run_tool rt c run_id))) ''error'' = Some err)"
    using run_return [of rt c run_id]
    by (auto simp: tool_r finish_mapping finish_error_key failed_def is_mapping_def
          error_payload_def has_error_key_def entries_def has_key_map_of finish_def
        split: outcome.splits)
  have tool_s: "fst (get_project_runs_stats_tool rt c project_name trace_id) =
                  finish rt ''Error getting project runs stats: ''
                    (fst (stats_outcome c project_name trace_id))"
    by (simp add: get_project_runs_stats_tool_def split: prod.splits)
  have s: "is_mapping (fst (get_project_runs_stats_tool rt c project_name trace_id))"
    "has_error_key (fst (get_project_runs_stats_tool rt c project_name trace_id))
        \<longleftrightarrow> failed (fst (stats_outcome c project_name trace_id))
            \<or> (\<exists>p stats. unnull project_name = Some p
                  \<and> get_run_stats c (stats_kwargs (Some p) (actual_name p) (unnull trace_id))
                      = Inr stats
                  \<and> has_key ''error'' stats)"
    using stats_return [of c project_name trace_id]
    by (auto simp: tool_s finish_mapping finish_error_key failed_def
        split: outcome.splits)
  show ?thesis
    using d e h t r s by blast
qed

text \<open>
  C1, as stated, fails: \<^verbatim>\<open>fetch_trace_tool\<close> finds the run of trace \<open>T\<close>, the operation
  succeeds, and the mapping it returns has an \<^verbatim>\<open>error\<close> key.
\<close>

theorem tools_error_key_counterexample:
  "\<not> failed (fst (fetch_trace_outcome (runs_client [chat_run]) None (Some ''T'')))
   \<and> has_error_key (fst (fetch_trace_tool plain_runtime (runs_client [chat_run]) None (Some ''T'')))"
  by (simp add: fetch_trace_tool_def fetch_trace_outcome_def fetch_trace_try_def unnull_def
      truthy_def runs_client_def returning_def trace_record_def need_def chat_run_def
      blank_run_def failed_def finish_def has_error_key_def entries_def has_key_def)

theorem tools_return_mappings_witness:
  "failed (list_datasets_try broken_client (datasets_kwargs None None None None None (Some 20)))
   \<and> has_error_key (fst (list_datasets_tool plain_runtime broken_client None None None None None
                           (Some 20)))
   \<and> is_mapping (fst (list_datasets_tool plain_runtime broken_client None None None None None
                        (Some 20)))
   \<and> \<not> failed (thread_history_try (runs_client [chat_run]) ''t1'' ''proj'')
   \<and> \<not> has_error_key (fst (get_thread_history_tool plain_runtime (runs_client [chat_run])
                               ''t1'' ''proj''))
   \<and> \<not> failed (fst (fetch_trace_outcome (runs_client [erring_run]) None (Some ''T'')))
   \<and> map_of (entries (fst (fetch_trace_tool plain_runtime (runs_client [erring_run]) None
                             (Some ''T'')))) ''error'' = Some (PStr ''timeout'')
   \<and> \<not> failed (fst (fetch_run_outcome plain_runtime (lone_run_client erring_run) (Some ''R'')))
   \<and> map_of (entries (fst (fetch_run_tool plain_runtime (lone_run_client erring_run)
                             (Some ''R'')))) ''error'' = Some (PStr ''timeout'')
   \<and> \<not> failed (fst (stats_outcome stats_client (Some ''acme/widgets'') None))
   \<and> \<not> has_error_key (fst (get_project_runs_stats_tool plain_runtime stats_client
                               (Some ''acme/widgets'') None))"
proof -
  note broken = tools_return_mappings [where rt = plain_runtime and c = broken_client
      and dataset_ids = None and data_type = None and dataset_name = None
      and dataset_name_contains = None and metadata = None and limit = "Some 20"]
  note chat = tools_return_mappings [where rt = plain_runtime and c = "runs_client [chat_run]"
      and thread_id = "''t1''" and thread_project = "''proj''"]
  note trace = tools_return_mappings [where rt = plain_runtime
      and c = "runs_client [erring_run]" and project_name = None and trace_id = "Some ''T''"]
  note single = tools_return_mappings [where rt = plain_runtime
      and c = "lone_run_client erring_run" and run_id = "Some ''R''"]
  note stats = tools_return_mappings [where rt = plain_runtime and c = stats_client
      and project_name = "Some ''acme/widgets''" and trace_id = None]
  have f: "failed (list_datasets_try broken_client
                     (datasets_kwargs None None None None None (Some 20)))"
    by (simp add: list_datasets_try_def broken_client_def failed_def)
  have one: "sorted_latest_first [chat_run] = Inr [chat_run]"
    by (simp add: sorted_latest_first_def chat_run_def blank_run_def)
  have lm: "latest_messages ''t1'' chat_run =
              Return (PDict [(''result'', PList [user_msg, assistant_msg])])"
    by (simp add: latest_messages_def input_messages_def output_messages_def str_in_def
        subscript_def iterate_def has_key_def chat_run_def blank_run_def)
  have g: "\<not> failed (thread_history_try (runs_client [chat_run]) ''t1'' ''proj'')"
    by (simp add: thread_history_try_def runs_client_def one lm failed_def)
  have listed: "list_runs (runs_client [erring_run]) kw = Inr [erring_run]" for kw
    by (simp add: runs_client_def)
  have rec: "trace_record erring_run \<noteq> Inl e" for e
    by (simp add: trace_record_def need_def erring_run_def blank_run_def)
  have nt: "\<not> failed (fst (fetch_trace_outcome (runs_client [erring_run]) None (Some ''T'')))"
    using rec
    by (auto simp: fetch_trace_outcome_def fetch_trace_try_def unnull_def truthy_def listed
        returning_def failed_def split: sum.splits)
  have err: "r_error erring_run = Attr (PStr ''timeout'')"
    by (simp add: erring_run_def)
  have tv: "map_of (entries (fst (fetch_trace_tool plain_runtime (runs_client [erring_run]) None
                             (Some ''T'')))) ''error'' = Some (PStr ''timeout'')"
    using trace nt err by (auto simp: listed)
  have info: "run_info erring_run \<noteq> Inl e" for e
    by (simp add: run_info_def need_def erring_run_def blank_run_def)
  have rd: "read_run (lone_run_client erring_run) rid = Inr (Some erring_run)" for rid
    by (simp add: lone_run_client_def)
  have nr: "\<not> failed (fst (fetch_run_outcome plain_runtime (lone_run_client erring_run)
                              (Some ''R'')))"
    using info
    by (auto simp: fetch_run_outcome_def fetch_run_try_def rd failed_def split: sum.splits)
  have rv: "map_of (entries (fst (fetch_run_tool plain_runtime (lone_run_client erring_run)
                             (Some ''R'')))) ''error'' = Some (PStr ''timeout'')"
    using single nr err by (auto simp: rd)
  have ns: "\<not> failed (fst (stats_outcome stats_client (Some ''acme/widgets'') None))"
    by (simp add: stats_outcome_def stats_try_def unnull_def truthy_def stats_client_def
        failed_def Let_def)
  have sk: "\<not> has_error_key (fst (get_project_runs_stats_tool plain_runtime stats_client
                               (Some ''acme/widgets'') None))"
    using stats ns by (auto simp: stats_client_def has_key_def)
  show ?thesis
    using f g broken chat nt tv nr rv ns sk by simp
qed

end
